theory Spec2Isabelle
  imports Main "HOL-Library.AList"
begin

section \<open>Python values, external objects and the heap\<close>

text \<open>
  The wrapped objects belong to the host application. An external runtime type is
  identified by its name; an object carries its exact type, the remaining types of its
  method resolution order, and its attributes. Objects live in a heap and are referred
  to by reference, so that identity (\<open>is\<close>) and mutation through an alias are visible.
\<close>

type_synonym tname = string
type_synonym ref = nat

datatype pyval =
    VNone
  | VBool bool
  | VInt int
  | VStr string
  | VRef ref
  | VType tname
  | VParameterSet ref
  | VList "pyval list"
  | VDict "(string \<times> pyval) list"

text \<open>
  A host object rejects the assignment of some of the members it exposes: a property
  without a setter, a method. The names of such members are kept with the object.
  The host names its members in capitals (\<open>Id\<close>, \<open>Name\<close>, \<open>Parameters\<close>); the
  lower-case name \<open>parameters\<close>, which the element wrapper assigns on itself, is not
  the name of a read-only member of a host object.
\<close>

typedef ro_name = "{s :: string. s \<noteq> ''parameters''}"
  by (rule exI [of _ "''Id''"]) simp

record ext_obj =
  otype :: tname
  obases :: "tname list"
  oattrs :: "(string \<times> pyval) list"
  oreadonly :: "ro_name list"

type_synonym heap = "ref \<Rightarrow> ext_obj"

datatype error =
    RPW_TypeError tname tname
  | RPW_Exception string
  | AttributeError string
  | KeyError string
  | PyTypeError
  | RuntimeError

text \<open>\<open>inspect.getmro(o.__class__)\<close>, \<open>isinstance\<close>, \<open>hasattr\<close>, and the external
  object's own \<open>__setattr__\<close>, which raises on a read-only member.\<close>

definition mro :: "ext_obj \<Rightarrow> tname list" where
  "mro ob = otype ob # obases ob"

definition isinstance :: "heap \<Rightarrow> ref \<Rightarrow> tname \<Rightarrow> bool" where
  "isinstance h r T = (T \<in> set (mro (h r)))"

definition hasattr :: "ext_obj \<Rightarrow> string \<Rightarrow> bool" where
  "hasattr ob attr = (map_of (oattrs ob) attr \<noteq> None)"

definition readonly_names :: "ext_obj \<Rightarrow> string list" where
  "readonly_names ob = map Rep_ro_name (oreadonly ob)"

definition obj_setattr :: "ext_obj \<Rightarrow> string \<Rightarrow> pyval \<Rightarrow> error + ext_obj" where
  "obj_setattr ob attr v =
     (if attr \<in> set (readonly_names ob) then Inl (AttributeError attr)
      else Inr (ob\<lparr>oattrs := AList.update attr v (oattrs ob)\<rparr>))"

section \<open>Wrapper classes and wrapper instances\<close>

text \<open>
  A wrapper class is described by what the code reads from it: its name, the names of
  the wrapper classes it inherits from, the value of
  \<open>getattr(cls, '_revit_object_class', None)\<close>, the value of
  \<open>getattr(cls, '_collector_params', None)\<close>, and the names of the read-only
  properties it declares or inherits. An instance has a class and an instance
  dictionary.
\<close>

record wrapper_class =
  cname :: string
  cbases :: "string list"
  revit_object_class :: "tname option"
  collector_params :: "(string \<times> pyval) list option"
  cproperties :: "string list"

record wrapper =
  wclass :: wrapper_class
  wdict :: "(string \<times> pyval) list"

definition BaseObjectWrapper_cls :: wrapper_class where
  "BaseObjectWrapper_cls = \<lparr>cname = ''BaseObjectWrapper'', cbases = [],
     revit_object_class = None, collector_params = None, cproperties = []\<rparr>"

definition Element_cls :: wrapper_class where
  "Element_cls = \<lparr>cname = ''Element'', cbases = [''BaseObjectWrapper''],
     revit_object_class = Some ''Element'', collector_params = None, cproperties = []\<rparr>"

definition Instance_cls :: wrapper_class where
  "Instance_cls = \<lparr>cname = ''Instance'', cbases = [''Element'', ''BaseObjectWrapper''],
     revit_object_class = Some ''FamilyInstance'',
     collector_params = Some [(''of_class'', VType ''FamilyInstance''), (''is_not_type'', VBool True)],
     cproperties = [''symbol'', ''family'', ''category'', ''siblings'']\<rparr>"

definition Symbol_cls :: wrapper_class where
  "Symbol_cls = \<lparr>cname = ''Symbol'', cbases = [''Element'', ''BaseObjectWrapper''],
     revit_object_class = Some ''FamilySymbol'',
     collector_params = Some [(''of_class'', VType ''FamilySymbol''), (''is_type'', VBool True)],
     cproperties = [''name'', ''family'', ''instances'', ''siblings'', ''category'']\<rparr>"

definition Family_cls :: wrapper_class where
  "Family_cls = \<lparr>cname = ''Family'', cbases = [''Element'', ''BaseObjectWrapper''],
     revit_object_class = Some ''Family'',
     collector_params = Some [(''of_class'', VType ''Family'')],
     cproperties = [''name'', ''instances'', ''symbols'', ''category'', ''siblings'']\<rparr>"

definition Category_cls :: wrapper_class where
  "Category_cls = \<lparr>cname = ''Category'', cbases = [''BaseObjectWrapper''],
     revit_object_class = Some ''Category'', collector_params = None,
     cproperties = [''name'', ''families'', ''symbols'', ''instances'', ''_builtin_enum'']\<rparr>"

definition issubclass :: "wrapper_class \<Rightarrow> wrapper_class \<Rightarrow> bool" where
  "issubclass c d = (cname d \<in> set (cname c # cbases c))"

text \<open>\<open>object.__new__(cls, ...)\<close>: a fresh instance with an empty dictionary.\<close>

definition object_new :: "wrapper_class \<Rightarrow> wrapper" where
  "object_new c = \<lparr>wclass = c, wdict = []\<rparr>"

subsection \<open>BaseObjectWrapper\<close>

text \<open>\<open>__init__(self, revit_object, enforce_type=None)\<close>: the guard, then
  \<open>object.__setattr__(self, '_revit_object', revit_object)\<close>.\<close>

definition BaseObjectWrapper_init ::
  "heap \<Rightarrow> wrapper \<Rightarrow> ref \<Rightarrow> tname option \<Rightarrow> error + wrapper" where
  "BaseObjectWrapper_init h self revit_object enforce_type =
     (case enforce_type of
        Some T \<Rightarrow>
          if \<not> isinstance h revit_object T
          then Inl (RPW_TypeError T (otype (h revit_object)))
          else Inr (self\<lparr>wdict := AList.update ''_revit_object'' (VRef revit_object) (wdict self)\<rparr>)
      | None \<Rightarrow>
          Inr (self\<lparr>wdict := AList.update ''_revit_object'' (VRef revit_object) (wdict self)\<rparr>))"

text \<open>Reading \<open>self._revit_object\<close>: the instance dictionary first; when the name is
  missing there, \<open>__getattr__\<close> runs \<open>self.__dict__['_revit_object']\<close>, a
  \<open>KeyError\<close>.\<close>

definition self_revit_object :: "wrapper \<Rightarrow> error + pyval" where
  "self_revit_object self =
     (case map_of (wdict self) ''_revit_object'' of
        Some v \<Rightarrow> Inr v
      | None \<Rightarrow> Inl (KeyError ''_revit_object''))"

text \<open>\<open>getattr(x, attr)\<close> on a stored value: a reference reads the external
  object's attribute; the other values of this model expose no attributes.\<close>

definition py_getattr :: "heap \<Rightarrow> pyval \<Rightarrow> string \<Rightarrow> error + pyval" where
  "py_getattr h x attr =
     (case x of
        VRef r \<Rightarrow> (case map_of (oattrs (h r)) attr of
                     Some v \<Rightarrow> Inr v
                   | None \<Rightarrow> Inl (AttributeError attr))
      | _ \<Rightarrow> Inl (AttributeError attr))"

text \<open>\<open>__getattr__(self, attr)\<close>.\<close>

definition BaseObjectWrapper_getattr :: "heap \<Rightarrow> wrapper \<Rightarrow> string \<Rightarrow> error + pyval" where
  "BaseObjectWrapper_getattr h self attr =
     (case map_of (wdict self) ''_revit_object'' of
        None \<Rightarrow> Inl (KeyError ''_revit_object'')
      | Some x \<Rightarrow> py_getattr h x attr)"

text \<open>\<open>object.__setattr__(self, attr, value)\<close>. A data descriptor of the class takes
  the assignment: a read-only property rejects it; \<open>__dict__\<close> replaces the whole
  instance dictionary, and takes a dictionary only; \<open>__class__\<close> takes a class with
  the layout of the instance, which no value of this model is; \<open>__weakref__\<close> is not
  writable. Any other name goes into the instance dictionary.\<close>

definition object_setattr :: "wrapper \<Rightarrow> string \<Rightarrow> pyval \<Rightarrow> error + wrapper" where
  "object_setattr self attr v =
     (if attr \<in> set (cproperties (wclass self)) then Inl (AttributeError attr)
      else if attr = ''__dict__''
      then (case v of VDict d \<Rightarrow> Inr (self\<lparr>wdict := d\<rparr>) | _ \<Rightarrow> Inl PyTypeError)
      else if attr = ''__class__'' then Inl PyTypeError
      else if attr = ''__weakref__'' then Inl (AttributeError attr)
      else Inr (self\<lparr>wdict := AList.update attr v (wdict self)\<rparr>))"

text \<open>\<open>__setattr__(self, attr, value)\<close>: forwarded to the wrapped object when it
  has the attribute, stored on the wrapper otherwise.\<close>

definition BaseObjectWrapper_setattr ::
  "heap \<Rightarrow> wrapper \<Rightarrow> string \<Rightarrow> pyval \<Rightarrow> error + (heap \<times> wrapper)" where
  "BaseObjectWrapper_setattr h self attr v =
     (case self_revit_object self of
        Inl e \<Rightarrow> Inl e
      | Inr x \<Rightarrow>
          (case x of
             VRef r \<Rightarrow>
               if hasattr (h r) attr
               then (case obj_setattr (h r) attr v of
                       Inl e \<Rightarrow> Inl e
                     | Inr ob \<Rightarrow> Inr (h(r := ob), self))
               else (case object_setattr self attr v of
                       Inl e \<Rightarrow> Inl e
                     | Inr self' \<Rightarrow> Inr (h, self'))
           | _ \<Rightarrow>
               (case object_setattr self attr v of
                  Inl e \<Rightarrow> Inl e
                | Inr self' \<Rightarrow> Inr (h, self'))))"

text \<open>\<open>unwrap(self)\<close>.\<close>

definition unwrap :: "wrapper \<Rightarrow> error + pyval" where
  "unwrap self = self_revit_object self"

text \<open>Constructing a \<open>BaseObjectWrapper\<close> directly: \<open>object.__new__\<close>, then
  \<open>__init__\<close>.\<close>

definition BaseObjectWrapper_call :: "heap \<Rightarrow> ref \<Rightarrow> tname option \<Rightarrow> error + wrapper" where
  "BaseObjectWrapper_call h revit_object enforce_type =
     BaseObjectWrapper_init h (object_new BaseObjectWrapper_cls) revit_object enforce_type"

subsection \<open>Element: the factory constructor\<close>

text \<open>
  \<open>inspect.getmembers(rpw.db, inspect.isclass)\<close> is the list of the classes of the
  package, in the order of their names; the package's contents are an argument
  (\<open>defined_wrapper_classes\<close>). The loop returns at the first class whose tag is the
  exact runtime type of the element.
\<close>

fun first_match :: "wrapper_class list \<Rightarrow> tname \<Rightarrow> wrapper_class option" where
  "first_match [] t = None"
| "first_match (wrapper_class # rest) t =
     (if Some t = revit_object_class wrapper_class then Some wrapper_class
      else first_match rest t)"

text \<open>\<open>Element.__new__(cls, element)\<close>. The pre-check reads
  \<open>cls._revit_object_class\<close>; \<open>isinstance\<close> against a tag that is \<open>None\<close> is a
  Python \<open>TypeError\<close>. \<open>super(Element, cls).__new__\<close> is \<open>object.__new__\<close>, which
  under Python 2 creates the instance and ignores the element passed along.\<close>

definition Element_new ::
  "wrapper_class list \<Rightarrow> wrapper_class \<Rightarrow> heap \<Rightarrow> ref \<Rightarrow> error + wrapper" where
  "Element_new defined_wrapper_classes cls h element =
     (if cls \<noteq> Element_cls \<and> revit_object_class cls = None then Inl PyTypeError
      else if cls \<noteq> Element_cls \<and> \<not> isinstance h element (the (revit_object_class cls))
      then Inl (RPW_TypeError (the (revit_object_class cls)) (otype (h element)))
      else (case first_match defined_wrapper_classes (otype (h element)) of
              Some wrapper_class \<Rightarrow> Inr (object_new wrapper_class)
            | None \<Rightarrow>
                if ''Element'' \<in> set (mro (h element)) then Inr (object_new cls)
                else Inl (RPW_Exception
                            (''Factory does not support type: '' @ otype (h element)))))"

text \<open>\<open>Element.__init__(self, element)\<close>: the base initialiser without a required
  type, then \<open>self.parameters = ParameterSet(element)\<close> (through \<open>__setattr__\<close>) when
  the element is a \<open>DB.Element\<close>. The parameter subsystem is outside these sources:
  its object is the opaque value \<open>VParameterSet element\<close>.\<close>

definition Element_init :: "heap \<Rightarrow> wrapper \<Rightarrow> ref \<Rightarrow> error + (heap \<times> wrapper)" where
  "Element_init h self element =
     (case BaseObjectWrapper_init h self element None of
        Inl e \<Rightarrow> Inl e
      | Inr self' \<Rightarrow>
          if isinstance h element ''Element''
          then BaseObjectWrapper_setattr h self' ''parameters'' (VParameterSet element)
          else Inr (h, self'))"

text \<open>The call \<open>cls(element)\<close> on a wrapper class. A class that derives from
  \<open>Element\<close> inherits its \<open>__new__\<close> and \<open>__init__\<close>: \<open>__new__\<close> runs, then
  \<open>__init__\<close> only when the object returned is an instance of \<open>cls\<close>. A class that
  does not derive from \<open>Element\<close> (\<open>Category\<close>, \<open>BaseObjectWrapper\<close> itself) has
  \<open>object.__new__\<close> and the initialiser of \<open>BaseObjectWrapper\<close>, called without a
  required type.\<close>

definition Element_call ::
  "wrapper_class list \<Rightarrow> wrapper_class \<Rightarrow> heap \<Rightarrow> ref \<Rightarrow> error + (heap \<times> wrapper)" where
  "Element_call defined_wrapper_classes cls h element =
     (if issubclass cls Element_cls
      then (case Element_new defined_wrapper_classes cls h element of
              Inl e \<Rightarrow> Inl e
            | Inr obj \<Rightarrow>
                if issubclass (wclass obj) cls then Element_init h obj element
                else Inr (h, obj))
      else (case BaseObjectWrapper_init h (object_new cls) element None of
              Inl e \<Rightarrow> Inl e
            | Inr obj \<Rightarrow> Inr (h, obj)))"

subsection \<open>Element.collect\<close>

text \<open>A dictionary is an association list in insertion order; \<open>d.update(e)\<close> stores
  every item of \<open>e\<close> into \<open>d\<close>. A dictionary is true when it is not empty.\<close>

definition dict_update :: "(string \<times> pyval) list \<Rightarrow> (string \<times> pyval) list \<Rightarrow> (string \<times> pyval) list" where
  "dict_update d e = fold (\<lambda>(k, v) acc. AList.update k v acc) e d"

text \<open>\<open>Element.collect(cls, **kwargs)\<close>; the value is the keyword arguments handed to
  \<open>rpw.db.Collector\<close>.\<close>

definition collect :: "wrapper_class \<Rightarrow> (string \<times> pyval) list \<Rightarrow> error + (string \<times> pyval) list" where
  "collect cls kwargs =
     (case collector_params cls of
        None \<Rightarrow> Inl (RPW_Exception (''Wrapper cannot collect by class: '' @ cname cls))
      | Some ps \<Rightarrow>
          if ps \<noteq> [] then Inr (dict_update kwargs ps)
          else Inl (RPW_Exception (''Wrapper cannot collect by class: '' @ cname cls)))"

text \<open>The expression \<open>cls.collect(**kwargs)\<close>: the attribute \<open>collect\<close> is found only
  on \<open>Element\<close> and the classes that inherit from it.\<close>

definition call_collect :: "wrapper_class \<Rightarrow> (string \<times> pyval) list \<Rightarrow> error + (string \<times> pyval) list" where
  "call_collect cls kwargs =
     (if issubclass cls Element_cls then collect cls kwargs
      else Inl (AttributeError ''collect''))"

section \<open>The environment of the element wrappers\<close>

text \<open>
  The document, the collector, the parameter subsystem and the category enumeration
  are collaborators outside these sources; what the code calls on them is a field of
  the environment. A method of an external object that takes no argument is read as
  the attribute of that name holding the method's result. \<open>other_property\<close> stands
  for a property declared by a wrapper class other than \<open>Symbol\<close>, when the factory
  returns an instance of such a class.
\<close>

record env =
  defined_wrapper_classes :: "wrapper_class list"
  GetElement :: "pyval \<Rightarrow> ref"
  Collector_elements :: "(string \<times> pyval) list \<Rightarrow> error + ref list"
  builtin_value :: "pyval \<Rightarrow> string \<Rightarrow> error + pyval"
  from_category_id :: "pyval \<Rightarrow> error + pyval"
  other_property :: "heap \<Rightarrow> wrapper \<Rightarrow> string \<Rightarrow> error + (heap \<times> pyval)"
  py_repr :: "pyval \<Rightarrow> string"

text \<open>\<open>Element.Factory(element)\<close>: the deprecated alias, \<open>Element(element)\<close> after a
  logged warning.\<close>

definition Element_Factory :: "env \<Rightarrow> heap \<Rightarrow> ref \<Rightarrow> error + (heap \<times> wrapper)" where
  "Element_Factory ev h element = Element_call (defined_wrapper_classes ev) Element_cls h element"

text \<open>Reading an attribute that is not a property of the class: the instance
  dictionary, then \<open>__getattr__\<close>.\<close>

definition wrapper_attr :: "heap \<Rightarrow> wrapper \<Rightarrow> string \<Rightarrow> error + pyval" where
  "wrapper_attr h w attr =
     (case map_of (wdict w) attr of
        Some v \<Rightarrow> Inr v
      | None \<Rightarrow> BaseObjectWrapper_getattr h w attr)"

subsection \<open>Symbol\<close>

text \<open>\<open>Symbol.instances\<close>.\<close>

definition Symbol_instances :: "env \<Rightarrow> heap \<Rightarrow> wrapper \<Rightarrow> error + pyval" where
  "Symbol_instances ev h self =
     (case self_revit_object self of
        Inl e \<Rightarrow> Inl e
      | Inr x \<Rightarrow>
          (case py_getattr h x ''Id'' of
             Inl e \<Rightarrow> Inl e
           | Inr i \<Rightarrow>
               (case Collector_elements ev [(''symbol'', i), (''is_not_type'', VBool True)] of
                  Inl e \<Rightarrow> Inl e
                | Inr elements \<Rightarrow> Inr (VList (map VRef elements)))))"

text \<open>\<open>Symbol.family\<close> followed by \<open>.Id\<close>: \<open>Family(self._revit_object.Family).Id\<close>.
  The owning family is an object reference; another value there is a type error of
  this model.\<close>

definition Symbol_family_Id :: "env \<Rightarrow> heap \<Rightarrow> wrapper \<Rightarrow> error + (heap \<times> pyval)" where
  "Symbol_family_Id ev h self =
     (case self_revit_object self of
        Inl e \<Rightarrow> Inl e
      | Inr x \<Rightarrow>
          (case py_getattr h x ''Family'' of
             Inl e \<Rightarrow> Inl e
           | Inr (VRef f) \<Rightarrow>
               (case Element_call (defined_wrapper_classes ev) Family_cls h f of
                  Inl e \<Rightarrow> Inl e
                | Inr (h', fw) \<Rightarrow>
                    (case wrapper_attr h' fw ''Id'' of
                       Inl e \<Rightarrow> Inl e
                     | Inr i \<Rightarrow> Inr (h', i)))
           | Inr _ \<Rightarrow> Inl PyTypeError))"

subsection \<open>Family\<close>

text \<open>\<open>Family.symbols\<close>.\<close>

definition Family_symbols :: "env \<Rightarrow> heap \<Rightarrow> wrapper \<Rightarrow> error + ref list" where
  "Family_symbols ev h self =
     (case self_revit_object self of
        Inl e \<Rightarrow> Inl e
      | Inr x \<Rightarrow>
          (case py_getattr h x ''GetFamilySymbolIds'' of
             Inl e \<Rightarrow> Inl e
           | Inr (VList symbols_ids) \<Rightarrow> Inr (map (GetElement ev) symbols_ids)
           | Inr _ \<Rightarrow> Inl PyTypeError))"

text \<open>\<open>'{}'.format(x)\<close>: a string is inserted as it is, another value through its
  representation.\<close>

definition py_format :: "env \<Rightarrow> pyval \<Rightarrow> string" where
  "py_format ev x = (case x of VStr s \<Rightarrow> s | _ \<Rightarrow> py_repr ev x)"

text \<open>\<open>Family.name\<close>. The handler of \<open>IndexError\<close> builds its message from
  \<open>self.name\<close>, the property being evaluated. The first argument after the
  environment is the number of nested calls the interpreter still allows; at zero the
  call fails with the interpreter's recursion error.\<close>

fun Family_name :: "env \<Rightarrow> nat \<Rightarrow> heap \<Rightarrow> wrapper \<Rightarrow> error + (heap \<times> pyval)" where
  "Family_name ev 0 h self = Inl RuntimeError"
| "Family_name ev (Suc depth) h self =
     (case Family_symbols ev h self of
        Inl e \<Rightarrow> Inl e
      | Inr [] \<Rightarrow>
          (case Family_name ev depth h self of
             Inl e \<Rightarrow> Inl e
           | Inr (h', n) \<Rightarrow>
               Inl (RPW_Exception (''Family ['' @ py_format ev n @ ''] has no symbols'')))
      | Inr (symbol # _) \<Rightarrow>
          (case Element_Factory ev h symbol of
             Inl e \<Rightarrow> Inl e
           | Inr (h', w) \<Rightarrow>
               (case wrapper_attr h' w ''parameters'' of
                  Inl e \<Rightarrow> Inl e
                | Inr ps \<Rightarrow>
                    (case builtin_value ev ps ''SYMBOL_FAMILY_NAME_PARAM'' of
                       Inl e \<Rightarrow> Inl e
                     | Inr v \<Rightarrow> Inr (h', v)))))"

text \<open>\<open>Element.Factory(symbol).instances\<close>.\<close>

definition factory_instances :: "env \<Rightarrow> heap \<Rightarrow> ref \<Rightarrow> error + (heap \<times> pyval)" where
  "factory_instances ev h symbol =
     (case Element_Factory ev h symbol of
        Inl e \<Rightarrow> Inl e
      | Inr (h', w) \<Rightarrow>
          if wclass w = Symbol_cls
          then (case Symbol_instances ev h' w of
                  Inl e \<Rightarrow> Inl e
                | Inr v \<Rightarrow> Inr (h', v))
          else if ''instances'' \<in> set (cproperties (wclass w))
          then other_property ev h' w ''instances''
          else (case wrapper_attr h' w ''instances'' of
                  Inl e \<Rightarrow> Inl e
                | Inr v \<Rightarrow> Inr (h', v)))"

text \<open>\<open>Family.instances\<close>: the loop over \<open>self.symbols\<close>, each round ending in
  \<open>instances.append(symbol_instances)\<close>.\<close>

fun instances_loop :: "env \<Rightarrow> heap \<Rightarrow> ref list \<Rightarrow> pyval list \<Rightarrow> error + (heap \<times> pyval)" where
  "instances_loop ev h [] instances = Inr (h, VList instances)"
| "instances_loop ev h (symbol # rest) instances =
     (case factory_instances ev h symbol of
        Inl e \<Rightarrow> Inl e
      | Inr (h', symbol_instances) \<Rightarrow>
          instances_loop ev h' rest (instances @ [symbol_instances]))"

definition Family_instances :: "env \<Rightarrow> heap \<Rightarrow> wrapper \<Rightarrow> error + (heap \<times> pyval)" where
  "Family_instances ev h self =
     (case Family_symbols ev h self of
        Inl e \<Rightarrow> Inl e
      | Inr symbols \<Rightarrow> instances_loop ev h symbols [])"

text \<open>What the docstring of \<open>Family.instances\<close> announces: one list holding the
  instances themselves.\<close>

fun is_flat :: "pyval \<Rightarrow> bool" where
  "is_flat (VList xs) = list_all (\<lambda>x. case x of VList _ \<Rightarrow> False | _ \<Rightarrow> True) xs"
| "is_flat _ = False"

subsection \<open>Category\<close>

text \<open>\<open>Category._builtin_enum\<close>, \<open>Category.symbols\<close> and \<open>Category.name\<close>.\<close>

definition Category_builtin_enum :: "env \<Rightarrow> heap \<Rightarrow> wrapper \<Rightarrow> error + pyval" where
  "Category_builtin_enum ev h self =
     (case self_revit_object self of
        Inl e \<Rightarrow> Inl e
      | Inr x \<Rightarrow>
          (case py_getattr h x ''Id'' of
             Inl e \<Rightarrow> Inl e
           | Inr i \<Rightarrow> from_category_id ev i))"

definition Category_symbols :: "env \<Rightarrow> heap \<Rightarrow> wrapper \<Rightarrow> error + ref list" where
  "Category_symbols ev h self =
     (case Category_builtin_enum ev h self of
        Inl e \<Rightarrow> Inl e
      | Inr b \<Rightarrow> Collector_elements ev [(''of_category'', b), (''is_type'', VBool True)])"

definition Category_name :: "heap \<Rightarrow> wrapper \<Rightarrow> error + pyval" where
  "Category_name h self =
     (case self_revit_object self of
        Inl e \<Rightarrow> Inl e
      | Inr x \<Rightarrow> py_getattr h x ''Name'')"

text \<open>\<open>Element.Factory(symbol).family.Id\<close>.\<close>

definition factory_family_Id :: "env \<Rightarrow> heap \<Rightarrow> ref \<Rightarrow> error + (heap \<times> pyval)" where
  "factory_family_Id ev h symbol =
     (case Element_Factory ev h symbol of
        Inl e \<Rightarrow> Inl e
      | Inr (h', w) \<Rightarrow>
          if wclass w = Symbol_cls then Symbol_family_Id ev h' w
          else if ''family'' \<in> set (cproperties (wclass w))
          then (case other_property ev h' w ''family'' of
                  Inl e \<Rightarrow> Inl e
                | Inr (h'', fam) \<Rightarrow>
                    (case py_getattr h'' fam ''Id'' of
                       Inl e \<Rightarrow> Inl e
                     | Inr i \<Rightarrow> Inr (h'', i)))
          else (case wrapper_attr h' w ''family'' of
                  Inl e \<Rightarrow> Inl e
                | Inr fam \<Rightarrow>
                    (case py_getattr h' fam ''Id'' of
                       Inl e \<Rightarrow> Inl e
                     | Inr i \<Rightarrow> Inr (h', i))))"

text \<open>A Python set of identifiers is the list of its members without repetition
  (the order in which a set is iterated is not fixed by the language; the order of
  insertion stands for it). Identifiers are values: two identifiers are the same
  member of a set when they are equal, as the host's \<open>ElementId\<close> defines equality
  and hashing.\<close>

definition set_add :: "pyval \<Rightarrow> pyval list \<Rightarrow> pyval list" where
  "set_add x s = (if x \<in> set s then s else s @ [x])"

fun families_loop :: "env \<Rightarrow> heap \<Rightarrow> ref list \<Rightarrow> pyval list \<Rightarrow> error + (heap \<times> pyval list)" where
  "families_loop ev h [] unique_family_ids = Inr (h, unique_family_ids)"
| "families_loop ev h (symbol # rest) unique_family_ids =
     (case factory_family_Id ev h symbol of
        Inl e \<Rightarrow> Inl e
      | Inr (h', i) \<Rightarrow> families_loop ev h' rest (set_add i unique_family_ids))"

text \<open>\<open>Category.families\<close>: the identifiers collected by the loop, then the list
  comprehension over them.\<close>

definition Category_family_ids :: "env \<Rightarrow> heap \<Rightarrow> wrapper \<Rightarrow> error + (heap \<times> pyval list)" where
  "Category_family_ids ev h self =
     (case Category_symbols ev h self of
        Inl e \<Rightarrow> Inl e
      | Inr symbols \<Rightarrow> families_loop ev h symbols [])"

definition Category_families :: "env \<Rightarrow> heap \<Rightarrow> wrapper \<Rightarrow> error + (heap \<times> ref list)" where
  "Category_families ev h self =
     (case Category_family_ids ev h self of
        Inl e \<Rightarrow> Inl e
      | Inr (h', unique_family_ids) \<Rightarrow> Inr (h', map (GetElement ev) unique_family_ids))"

subsection \<open>String representation\<close>

fun py_truthy :: "pyval \<Rightarrow> bool" where
  "py_truthy VNone = False"
| "py_truthy (VBool b) = b"
| "py_truthy (VInt i) = (i \<noteq> 0)"
| "py_truthy (VStr s) = (s \<noteq> [])"
| "py_truthy (VList xs) = (xs \<noteq> [])"
| "py_truthy (VDict d) = (d \<noteq> [])"
| "py_truthy (VRef r) = True"
| "py_truthy (VType t) = True"
| "py_truthy (VParameterSet r) = True"

fun py_type_name :: "heap \<Rightarrow> pyval \<Rightarrow> string" where
  "py_type_name h VNone = ''NoneType''"
| "py_type_name h (VBool b) = ''bool''"
| "py_type_name h (VInt i) = ''int''"
| "py_type_name h (VStr s) = ''str''"
| "py_type_name h (VList xs) = ''list''"
| "py_type_name h (VDict d) = ''dict''"
| "py_type_name h (VRef r) = otype (h r)"
| "py_type_name h (VType t) = ''type''"
| "py_type_name h (VParameterSet r) = ''ParameterSet''"

text \<open>\<open>BaseObjectWrapper.__repr__(self, data='')\<close>.\<close>

definition BaseObjectWrapper_repr :: "env \<Rightarrow> heap \<Rightarrow> wrapper \<Rightarrow> pyval \<Rightarrow> error + string" where
  "BaseObjectWrapper_repr ev h self data =
     (if \<not> py_truthy data
      then (case self_revit_object self of
              Inl e \<Rightarrow> Inl e
            | Inr x \<Rightarrow>
                Inr (''<RPW_'' @ cname (wclass self) @ '': '' @
                     py_format ev (VStr (py_type_name h x)) @ ''>''))
      else Inr (''<RPW_'' @ cname (wclass self) @ '': '' @ py_format ev data @ ''>''))"

text \<open>\<open>Element.__repr__(self, data={})\<close>; \<open>getattr(x, 'Id', None)\<close> turns a missing
  attribute into \<open>None\<close>.\<close>

definition Element_repr :: "env \<Rightarrow> heap \<Rightarrow> wrapper \<Rightarrow> pyval \<Rightarrow> error + string" where
  "Element_repr ev h self data =
     (if py_truthy data then BaseObjectWrapper_repr ev h self data
      else (case self_revit_object self of
              Inl e \<Rightarrow> Inl e
            | Inr x \<Rightarrow>
                BaseObjectWrapper_repr ev h self
                  (VDict [(''id'', (case py_getattr h x ''Id'' of Inr v \<Rightarrow> v | Inl _ \<Rightarrow> VNone))])))"

text \<open>\<open>Family.__repr__\<close> and \<open>Category.__repr__\<close>.\<close>

definition Family_repr :: "env \<Rightarrow> nat \<Rightarrow> heap \<Rightarrow> wrapper \<Rightarrow> error + (heap \<times> string)" where
  "Family_repr ev depth h self =
     (case Family_name ev depth h self of
        Inl e \<Rightarrow> Inl e
      | Inr (h', n) \<Rightarrow>
          (case Element_repr ev h' self (VDict [(''name'', n)]) of
             Inl e \<Rightarrow> Inl e
           | Inr s \<Rightarrow> Inr (h', s)))"

definition Category_repr :: "env \<Rightarrow> heap \<Rightarrow> wrapper \<Rightarrow> error + string" where
  "Category_repr ev h self =
     (case Category_name h self of
        Inl e \<Rightarrow> Inl e
      | Inr n \<Rightarrow> BaseObjectWrapper_repr ev h self (VDict [(''name'', n)]))"

section \<open>A small document\<close>

text \<open>
  Object 8 and object 7 are symbols of the family 4, object 5 is an instance of
  symbol 8, object 2 is a wall (an element without a wrapper class of its own),
  object 3 a category, object 6 a family without symbols; every other reference is
  \<open>None\<close>.
\<close>

definition demo_heap :: heap where
  "demo_heap = (\<lambda>r.
     if r = 8 then \<lparr>otype = ''FamilySymbol'', obases = [''ElementType'', ''Element'', ''Object''],
                    oattrs = [(''Pinned'', VBool False), (''Id'', VInt 8), (''Family'', VRef 4)],
                    oreadonly = [Abs_ro_name ''Id'', Abs_ro_name ''Family'']\<rparr>
     else if r = 2 then \<lparr>otype = ''Wall'', obases = [''HostObject'', ''Element'', ''Object''],
                    oattrs = [(''Pinned'', VBool False), (''Id'', VInt 2)],
                    oreadonly = [Abs_ro_name ''Id'']\<rparr>
     else if r = 3 then \<lparr>otype = ''Category'', obases = [''Object''],
                    oattrs = [(''Name'', VStr ''Doors''), (''Id'', VInt 3)],
                    oreadonly = [Abs_ro_name ''Id'']\<rparr>
     else if r = 4 then \<lparr>otype = ''Family'', obases = [''Element'', ''Object''],
                    oattrs = [(''Id'', VInt 4), (''GetFamilySymbolIds'', VList [VInt 8, VInt 7])],
                    oreadonly = [Abs_ro_name ''Id'', Abs_ro_name ''GetFamilySymbolIds'']\<rparr>
     else if r = 5 then \<lparr>otype = ''FamilyInstance'', obases = [''Instance'', ''Element'', ''Object''],
                    oattrs = [(''Id'', VInt 5), (''Symbol'', VRef 8)],
                    oreadonly = [Abs_ro_name ''Id'']\<rparr>
     else if r = 6 then \<lparr>otype = ''Family'', obases = [''Element'', ''Object''],
                    oattrs = [(''Id'', VInt 6), (''GetFamilySymbolIds'', VList [])],
                    oreadonly = [Abs_ro_name ''Id'', Abs_ro_name ''GetFamilySymbolIds'']\<rparr>
     else if r = 7 then \<lparr>otype = ''FamilySymbol'', obases = [''ElementType'', ''Element'', ''Object''],
                    oattrs = [(''Id'', VInt 7), (''Family'', VRef 4)],
                    oreadonly = [Abs_ro_name ''Id'', Abs_ro_name ''Family'']\<rparr>
     else \<lparr>otype = ''NoneType'', obases = [''object''], oattrs = [], oreadonly = []\<rparr>)"

definition demo_classes :: "wrapper_class list" where
  "demo_classes = [Category_cls, Element_cls, Family_cls, Instance_cls, Symbol_cls]"

fun demo_GetElement :: "pyval \<Rightarrow> ref" where
  "demo_GetElement (VInt i) = nat i"
| "demo_GetElement _ = 0"

definition demo_Collector :: "(string \<times> pyval) list \<Rightarrow> error + ref list" where
  "demo_Collector kwargs =
     (if kwargs = [(''symbol'', VInt 8), (''is_not_type'', VBool True)] then Inr [5]
      else if kwargs = [(''of_category'', VInt 3), (''is_type'', VBool True)] then Inr [8, 7]
      else Inr [])"

definition demo_env :: env where
  "demo_env = \<lparr>defined_wrapper_classes = demo_classes,
     GetElement = demo_GetElement,
     Collector_elements = demo_Collector,
     builtin_value = (\<lambda>ps name. Inr (VStr ''Desk'')),
     from_category_id = (\<lambda>i. Inr i),
     other_property = (\<lambda>h w attr. Inl (AttributeError attr)),
     py_repr = (\<lambda>x. ''...'')\<rparr>"

text \<open>A wrapper class derived from \<open>Element\<close> whose declared default query is the
  empty dictionary.\<close>

definition Blank_cls :: wrapper_class where
  "Blank_cls = \<lparr>cname = ''Blank'', cbases = [''Element'', ''BaseObjectWrapper''],
     revit_object_class = Some ''Blank'', collector_params = Some [], cproperties = []\<rparr>"

definition wrapper_of :: "wrapper_class \<Rightarrow> ref \<Rightarrow> wrapper" where
  "wrapper_of c r = \<lparr>wclass = c, wdict = [(''_revit_object'', VRef r), (''parameters'', VParameterSet r)]\<rparr>"

section \<open>Properties of the factory constructor\<close>

lemma first_match_split:
  "\<forall>c \<in> set pre. revit_object_class c \<noteq> Some t \<Longrightarrow> revit_object_class W = Some t \<Longrightarrow>
   first_match (pre @ W # post) t = Some W"
  by (induction pre) auto

lemma first_match_none:
  "\<forall>c \<in> set cs. revit_object_class c \<noteq> Some t \<Longrightarrow> first_match cs t = None"
  by (induction cs) auto

lemma Rep_ro_name_neq: "Rep_ro_name x \<noteq> ''parameters''"
  using Rep_ro_name [of x] by simp

lemma parameters_writable: "''parameters'' \<notin> set (readonly_names ob)"
proof
  assume "''parameters'' \<in> set (readonly_names ob)"
  then obtain x where "Rep_ro_name x = ''parameters''"
    by (auto simp: readonly_names_def)
  with Rep_ro_name_neq [of x] show False by simp
qed

lemma obj_setattr_parameters:
  "obj_setattr ob ''parameters'' v = Inr (ob\<lparr>oattrs := AList.update ''parameters'' v (oattrs ob)\<rparr>)"
  by (simp add: obj_setattr_def parameters_writable)

lemma object_setattr_parameters:
  "''parameters'' \<notin> set (cproperties (wclass self)) \<Longrightarrow>
   object_setattr self ''parameters'' v =
     Inr (self\<lparr>wdict := AList.update ''parameters'' v (wdict self)\<rparr>)"
  by (simp add: object_setattr_def)

lemma Element_init_ok:
  "''parameters'' \<notin> set (cproperties (wclass self)) \<Longrightarrow>
   \<exists>h' w. Element_init h self element = Inr (h', w) \<and> wclass w = wclass self \<and>
          unwrap w = Inr (VRef element)"
  by (auto simp: Element_init_def BaseObjectWrapper_init_def BaseObjectWrapper_setattr_def
      self_revit_object_def object_setattr_parameters obj_setattr_parameters unwrap_def
      update_conv')

lemma Element_init_errors:
  "Element_init h self element = Inl e \<Longrightarrow> (\<exists>a. e = AttributeError a) \<or> (\<exists>a. e = KeyError a)"
  by (auto simp: Element_init_def BaseObjectWrapper_init_def BaseObjectWrapper_setattr_def
      self_revit_object_def object_setattr_def obj_setattr_parameters update_conv'
      split: if_splits)

lemma Element_subclass_self: "issubclass Element_cls Element_cls"
  by (simp add: issubclass_def)

lemma demo_tags:
  "revit_object_class Category_cls = Some ''Category''"
  "revit_object_class Element_cls = Some ''Element''"
  "revit_object_class Family_cls = Some ''Family''"
  "revit_object_class Instance_cls = Some ''FamilyInstance''"
  "revit_object_class Symbol_cls = Some ''FamilySymbol''"
  by (simp_all add: Category_cls_def Element_cls_def Family_cls_def Instance_cls_def Symbol_cls_def)

lemma demo_objects:
  "demo_heap 8 = \<lparr>otype = ''FamilySymbol'', obases = [''ElementType'', ''Element'', ''Object''],
                    oattrs = [(''Pinned'', VBool False), (''Id'', VInt 8), (''Family'', VRef 4)],
                    oreadonly = [Abs_ro_name ''Id'', Abs_ro_name ''Family'']\<rparr>"
  "demo_heap 2 = \<lparr>otype = ''Wall'', obases = [''HostObject'', ''Element'', ''Object''],
                    oattrs = [(''Pinned'', VBool False), (''Id'', VInt 2)],
                    oreadonly = [Abs_ro_name ''Id'']\<rparr>"
  "demo_heap 3 = \<lparr>otype = ''Category'', obases = [''Object''],
                    oattrs = [(''Name'', VStr ''Doors''), (''Id'', VInt 3)],
                    oreadonly = [Abs_ro_name ''Id'']\<rparr>"
  "demo_heap 4 = \<lparr>otype = ''Family'', obases = [''Element'', ''Object''],
                    oattrs = [(''Id'', VInt 4), (''GetFamilySymbolIds'', VList [VInt 8, VInt 7])],
                    oreadonly = [Abs_ro_name ''Id'', Abs_ro_name ''GetFamilySymbolIds'']\<rparr>"
  "demo_heap 5 = \<lparr>otype = ''FamilyInstance'', obases = [''Instance'', ''Element'', ''Object''],
                    oattrs = [(''Id'', VInt 5), (''Symbol'', VRef 8)],
                    oreadonly = [Abs_ro_name ''Id'']\<rparr>"
  "demo_heap 6 = \<lparr>otype = ''Family'', obases = [''Element'', ''Object''],
                    oattrs = [(''Id'', VInt 6), (''GetFamilySymbolIds'', VList [])],
                    oreadonly = [Abs_ro_name ''Id'', Abs_ro_name ''GetFamilySymbolIds'']\<rparr>"
  "demo_heap 7 = \<lparr>otype = ''FamilySymbol'', obases = [''ElementType'', ''Element'', ''Object''],
                    oattrs = [(''Id'', VInt 7), (''Family'', VRef 4)],
                    oreadonly = [Abs_ro_name ''Id'', Abs_ro_name ''Family'']\<rparr>"
  "demo_heap 0 = \<lparr>otype = ''NoneType'', obases = [''object''], oattrs = [], oreadonly = []\<rparr>"
  by (simp_all add: demo_heap_def)

text \<open>
  C1. When the exact runtime type of the element is the tag of a wrapper class \<open>W\<close> of
  the package, and no class before \<open>W\<close> in the enumeration carries that tag (the first
  match wins), \<open>Element.__new__\<close> called on the generic class creates an instance of
  \<open>W\<close>; and \<open>Element(o)\<close> as a whole returns an instance of \<open>W\<close>, provided \<open>W\<close> does
  not declare a read-only property named \<open>parameters\<close> that would reject the
  assignment made by the initialiser.
\<close>

theorem Element_factory_redirects:
  assumes "\<forall>c \<in> set pre. revit_object_class c \<noteq> Some (otype (h element))"
      and "revit_object_class W = Some (otype (h element))"
  shows "Element_new (pre @ W # post) Element_cls h element = Inr (object_new W) \<and>
         (''parameters'' \<notin> set (cproperties W) \<longrightarrow>
            (\<exists>h' w. Element_call (pre @ W # post) Element_cls h element = Inr (h', w) \<and>
                    wclass w = W))"
proof -
  have fm: "first_match (pre @ W # post) (otype (h element)) = Some W"
    using assms by (rule first_match_split)
  have new: "Element_new (pre @ W # post) Element_cls h element = Inr (object_new W)"
    by (simp add: Element_new_def fm)
  have "\<exists>h' w. Element_call (pre @ W # post) Element_cls h element = Inr (h', w) \<and> wclass w = W"
    if np: "''parameters'' \<notin> set (cproperties W)"
  proof (cases "issubclass W Element_cls")
    case True
    from np have "''parameters'' \<notin> set (cproperties (wclass (object_new W)))"
      by (simp add: object_new_def)
    from Element_init_ok [OF this, of h element] True new show ?thesis
      by (auto simp: Element_call_def Element_subclass_self object_new_def)
  next
    case False
    with new show ?thesis by (simp add: Element_call_def Element_subclass_self object_new_def)
  qed
  with new show ?thesis by blast
qed

theorem Element_factory_redirects_witness:
  "revit_object_class Symbol_cls = Some (otype (demo_heap 8)) \<and>
   ''parameters'' \<notin> set (cproperties Symbol_cls) \<and>
   Element_new ([Category_cls, Element_cls, Family_cls, Instance_cls] @ Symbol_cls # [])
     Element_cls demo_heap 8 = Inr (object_new Symbol_cls) \<and>
   (\<exists>h' w. Element_call ([Category_cls, Element_cls, Family_cls, Instance_cls] @ Symbol_cls # [])
              Element_cls demo_heap 8 = Inr (h', w) \<and> wclass w = Symbol_cls)"
proof -
  have a: "\<forall>c \<in> set [Category_cls, Element_cls, Family_cls, Instance_cls].
       revit_object_class c \<noteq> Some (otype (demo_heap 8))"
    by (simp add: demo_tags demo_objects)
  have b: "revit_object_class Symbol_cls = Some (otype (demo_heap 8))"
    by (simp add: demo_tags demo_objects)
  have c: "''parameters'' \<notin> set (cproperties Symbol_cls)"
    by (simp add: Symbol_cls_def)
  from Element_factory_redirects
         [of "[Category_cls, Element_cls, Family_cls, Instance_cls]" demo_heap 8 Symbol_cls "[]"] a b c
  show ?thesis by blast
qed

text \<open>
  C2. When no class of the package carries the exact runtime type of the element as
  its tag, \<open>Element(o)\<close> returns a generic \<open>Element\<close> wrapper around \<open>o\<close> if
  \<open>DB.Element\<close> is among the types of \<open>o\<close>, and otherwise fails with the exception
  whose message names the runtime type of \<open>o\<close>.
\<close>

theorem Element_factory_fallback:
  assumes "\<forall>c \<in> set classes. revit_object_class c \<noteq> Some (otype (h element))"
  shows "(''Element'' \<in> set (mro (h element)) \<longrightarrow>
            (\<exists>h' w. Element_call classes Element_cls h element = Inr (h', w) \<and>
                    wclass w = Element_cls \<and> unwrap w = Inr (VRef element))) \<and>
         (''Element'' \<notin> set (mro (h element)) \<longrightarrow>
            Element_call classes Element_cls h element =
              Inl (RPW_Exception (''Factory does not support type: '' @ otype (h element))))"
proof -
  have fm: "first_match classes (otype (h element)) = None"
    using assms by (rule first_match_none)
  have np: "''parameters'' \<notin> set (cproperties (wclass (object_new Element_cls)))"
    by (simp add: object_new_def Element_cls_def)
  show ?thesis
    using Element_init_ok [OF np, of h element]
    by (auto simp: Element_call_def Element_new_def fm issubclass_def object_new_def)
qed

theorem Element_factory_fallback_witness:
  "''Element'' \<in> set (mro (demo_heap 2)) \<and> ''Element'' \<notin> set (mro (demo_heap 0)) \<and>
   (\<exists>h' w. Element_call demo_classes Element_cls demo_heap 2 = Inr (h', w) \<and>
           wclass w = Element_cls \<and> unwrap w = Inr (VRef 2)) \<and>
   Element_call demo_classes Element_cls demo_heap 0 =
     Inl (RPW_Exception ''Factory does not support type: NoneType'')"
proof -
  have a: "\<forall>c \<in> set demo_classes. revit_object_class c \<noteq> Some (otype (demo_heap 2))"
    by (simp add: demo_classes_def demo_tags demo_objects)
  have b: "\<forall>c \<in> set demo_classes. revit_object_class c \<noteq> Some (otype (demo_heap 0))"
    by (simp add: demo_classes_def demo_tags demo_objects)
  have c: "''Element'' \<in> set (mro (demo_heap 2))" "''Element'' \<notin> set (mro (demo_heap 0))"
    by (simp_all add: mro_def demo_objects)
  have d: "otype (demo_heap 0) = ''NoneType''" by (simp add: demo_objects)
  from Element_factory_fallback [of demo_classes demo_heap 2]
       Element_factory_fallback [of demo_classes demo_heap 0] a b c d
  show ?thesis by simp
qed

text \<open>
  C9, as amended. A \<open>BaseObjectWrapper\<close> constructor fails with \<open>RPW_TypeError\<close>
  exactly when a required type is supplied and the object is not an instance of it.
  A wrapper class derived from \<open>Element\<close>, other than \<open>Element\<close> itself, requested
  directly, fails with \<open>RPW_TypeError\<close> exactly when the object is not an instance of
  the external type the class declares, and then \<open>__new__\<close> fails whatever the
  classes of the package are: the check comes before the dispatch. The generic
  \<open>Element\<close> never fails with \<open>RPW_TypeError\<close>. A wrapper class that does not derive
  from \<open>Element\<close> (\<open>Category\<close>) checks nothing: its constructor stores the object,
  whatever its type.
\<close>

theorem type_mismatch_iff:
  "((\<exists>a b. BaseObjectWrapper_call h revit_object enforce_type = Inl (RPW_TypeError a b)) \<longleftrightarrow>
      (\<exists>T. enforce_type = Some T \<and> \<not> isinstance h revit_object T)) \<and>
   (issubclass cls Element_cls \<and> cls \<noteq> Element_cls \<and> revit_object_class cls = Some T \<longrightarrow>
      ((\<exists>a b. Element_call classes cls h revit_object = Inl (RPW_TypeError a b)) \<longleftrightarrow>
         \<not> isinstance h revit_object T) \<and>
      (\<not> isinstance h revit_object T \<longrightarrow>
         Element_new classes cls h revit_object =
           Inl (RPW_TypeError T (otype (h revit_object))) \<and>
         Element_call classes cls h revit_object =
           Inl (RPW_TypeError T (otype (h revit_object))))) \<and>
   Element_call classes Element_cls h revit_object \<noteq> Inl (RPW_TypeError a b) \<and>
   (\<not> issubclass cls Element_cls \<longrightarrow>
      Element_call classes cls h revit_object =
        Inr (h, \<lparr>wclass = cls, wdict = [(''_revit_object'', VRef revit_object)]\<rparr>))"
proof -
  have base: "(\<exists>a b. BaseObjectWrapper_call h revit_object enforce_type = Inl (RPW_TypeError a b)) \<longleftrightarrow>
      (\<exists>T. enforce_type = Some T \<and> \<not> isinstance h revit_object T)"
    by (cases enforce_type) (auto simp: BaseObjectWrapper_call_def BaseObjectWrapper_init_def)
  have after_new: "Element_call classes c h revit_object \<noteq> Inl (RPW_TypeError a b)"
    if s: "issubclass c Element_cls"
      and n: "\<And>e. Element_new classes c h revit_object = Inl e \<Longrightarrow> e \<noteq> RPW_TypeError a b"
    for c a b
  proof
    assume eq: "Element_call classes c h revit_object = Inl (RPW_TypeError a b)"
    show False
    proof (cases "Element_new classes c h revit_object")
      case (Inl e)
      with s eq have "e = RPW_TypeError a b" by (simp add: Element_call_def)
      with n [OF Inl] show False by simp
    next
      case (Inr obj)
      with s eq have "Element_init h obj revit_object = Inl (RPW_TypeError a b)"
        by (auto simp: Element_call_def split: if_splits)
      from Element_init_errors [OF this] show False by auto
    qed
  qed
  have fac: "((\<exists>a b. Element_call classes cls h revit_object = Inl (RPW_TypeError a b)) \<longleftrightarrow>
         \<not> isinstance h revit_object T) \<and>
      (\<not> isinstance h revit_object T \<longrightarrow>
         Element_new classes cls h revit_object = Inl (RPW_TypeError T (otype (h revit_object))) \<and>
         Element_call classes cls h revit_object = Inl (RPW_TypeError T (otype (h revit_object))))"
    if s: "issubclass cls Element_cls" and c: "cls \<noteq> Element_cls"
      and t: "revit_object_class cls = Some T"
  proof (cases "isinstance h revit_object T")
    case False
    with s c t show ?thesis by (simp add: Element_call_def Element_new_def)
  next
    case True
    have "e \<noteq> RPW_TypeError a b" if "Element_new classes cls h revit_object = Inl e" for e a b
      using that c t True by (auto simp: Element_new_def split: option.splits if_splits)
    from after_new [OF s this] True show ?thesis by auto
  qed
  have gen: "Element_call classes Element_cls h revit_object \<noteq> Inl (RPW_TypeError a b)"
  proof -
    have "e \<noteq> RPW_TypeError a b" if "Element_new classes Element_cls h revit_object = Inl e" for e
      using that by (auto simp: Element_new_def split: option.splits if_splits)
    from after_new [OF Element_subclass_self this] show ?thesis .
  qed
  have other: "Element_call classes cls h revit_object =
        Inr (h, \<lparr>wclass = cls, wdict = [(''_revit_object'', VRef revit_object)]\<rparr>)"
    if "\<not> issubclass cls Element_cls"
    using that by (simp add: Element_call_def BaseObjectWrapper_init_def object_new_def)
  from base fac gen other show ?thesis by blast
qed

theorem type_mismatch_iff_witness:
  "issubclass Family_cls Element_cls \<and> Family_cls \<noteq> Element_cls \<and>
   revit_object_class Family_cls = Some ''Family'' \<and>
   \<not> isinstance demo_heap 2 ''Family'' \<and>
   BaseObjectWrapper_call demo_heap 2 (Some ''Family'') = Inl (RPW_TypeError ''Family'' ''Wall'') \<and>
   Element_new demo_classes Family_cls demo_heap 2 = Inl (RPW_TypeError ''Family'' ''Wall'') \<and>
   Element_call demo_classes Family_cls demo_heap 2 = Inl (RPW_TypeError ''Family'' ''Wall'') \<and>
   \<not> issubclass Category_cls Element_cls \<and>
   Element_call demo_classes Category_cls demo_heap 3 =
     Inr (demo_heap, \<lparr>wclass = Category_cls, wdict = [(''_revit_object'', VRef 3)]\<rparr>)"
proof -
  have s: "issubclass Family_cls Element_cls"
    by (simp add: issubclass_def Family_cls_def Element_cls_def)
  have a: "Family_cls \<noteq> Element_cls" by (simp add: Family_cls_def Element_cls_def)
  have b: "revit_object_class Family_cls = Some ''Family''" by (simp add: demo_tags)
  have c: "\<not> isinstance demo_heap 2 ''Family''" by (simp add: isinstance_def mro_def demo_objects)
  have d: "otype (demo_heap 2) = ''Wall''" by (simp add: demo_objects)
  have e: "BaseObjectWrapper_call demo_heap 2 (Some ''Family'') = Inl (RPW_TypeError ''Family'' ''Wall'')"
    using c d by (simp add: BaseObjectWrapper_call_def BaseObjectWrapper_init_def)
  have n: "\<not> issubclass Category_cls Element_cls"
    by (simp add: issubclass_def Category_cls_def Element_cls_def)
  from type_mismatch_iff [of demo_heap 2 "Some ''Family''" Family_cls "''Family''" demo_classes]
       type_mismatch_iff [of demo_heap 3 None Category_cls "''Category''" demo_classes]
       s a b c d e n
  show ?thesis by simp
qed

text \<open>The claim as stated fails: \<open>Category\<close> is requested directly on the wall 2,
  which is not an instance of the type \<open>Category\<close> declares, and the constructor
  returns a wrapper around the wall.\<close>

theorem type_mismatch_iff_counterexample:
  "revit_object_class Category_cls = Some ''Category'' \<and>
   \<not> isinstance demo_heap 2 ''Category'' \<and>
   Element_call demo_classes Category_cls demo_heap 2 =
     Inr (demo_heap, \<lparr>wclass = Category_cls, wdict = [(''_revit_object'', VRef 2)]\<rparr>)"
  by (simp add: demo_tags isinstance_def mro_def demo_objects Element_call_def issubclass_def
      Category_cls_def Element_cls_def BaseObjectWrapper_init_def object_new_def)

section \<open>Properties of the delegating wrapper\<close>

lemma object_setattr_keeps:
  "object_setattr w attr v = Inr w' \<Longrightarrow> attr \<noteq> k \<Longrightarrow> attr \<noteq> ''__dict__'' \<Longrightarrow>
   map_of (wdict w') k = map_of (wdict w) k"
  by (auto simp: object_setattr_def update_conv' split: if_splits)

lemma setattr_result:
  "BaseObjectWrapper_setattr h w attr v = Inr (h', w') \<Longrightarrow>
   w' = w \<or> object_setattr w attr v = Inr w'"
  unfolding BaseObjectWrapper_setattr_def
  by (cases "self_revit_object w"; cases "object_setattr w attr v")
     (auto split: pyval.splits if_splits sum.splits)

lemma setattr_keeps_reference:
  assumes u: "unwrap w = Inr x" and n: "attr \<noteq> ''_revit_object''" and d: "attr \<noteq> ''__dict__''"
      and s: "BaseObjectWrapper_setattr h w attr v = Inr (h', w')"
  shows "unwrap w' = Inr x"
proof -
  from setattr_result [OF s] show ?thesis
  proof
    assume "w' = w" with u show ?thesis by simp
  next
    assume "object_setattr w attr v = Inr w'"
    from object_setattr_keeps [OF this n d] u show ?thesis
      by (simp add: unwrap_def self_revit_object_def)
  qed
qed

lemma BaseObjectWrapper_init_unwrap:
  "BaseObjectWrapper_init h self r enforce_type = Inr w \<Longrightarrow> unwrap w = Inr (VRef r)"
  by (cases enforce_type)
     (auto simp: BaseObjectWrapper_init_def unwrap_def self_revit_object_def update_conv'
        split: if_splits)

lemma Element_init_unwrap:
  assumes "Element_init h self r = Inr (g, w)"
  shows "unwrap w = Inr (VRef r)"
proof -
  obtain self' where i: "BaseObjectWrapper_init h self r None = Inr self'"
    using assms by (cases "BaseObjectWrapper_init h self r None") (simp_all add: Element_init_def)
  have u: "unwrap self' = Inr (VRef r)" using i by (rule BaseObjectWrapper_init_unwrap)
  show ?thesis
  proof (cases "isinstance h r ''Element''")
    case True
    with assms i have "BaseObjectWrapper_setattr h self' ''parameters'' (VParameterSet r) = Inr (g, w)"
      by (simp add: Element_init_def)
    then show ?thesis by (rule setattr_keeps_reference [OF u, rotated 2]) simp_all
  next
    case False
    with assms i u show ?thesis by (simp add: Element_init_def)
  qed
qed

text \<open>
  C5, as amended. \<open>unwrap()\<close> on a wrapper whose initialiser has run returns the
  reference passed to the constructor: on a \<open>BaseObjectWrapper\<close> just constructed, and
  on the result of calling a wrapper class when that result is an instance of the
  class called. An attribute write through the wrapper that succeeds leaves the
  stored reference as it was whenever the attribute written is neither
  \<open>_revit_object\<close> nor \<open>__dict__\<close>.
\<close>

theorem unwrap_identity:
  "(BaseObjectWrapper_call h revit_object enforce_type = Inr w \<longrightarrow>
      unwrap w = Inr (VRef revit_object)) \<and>
   (Element_call classes cls h revit_object = Inr (g, w1) \<and> issubclass (wclass w1) cls \<longrightarrow>
      unwrap w1 = Inr (VRef revit_object)) \<and>
   (unwrap w = Inr x \<and> attr \<noteq> ''_revit_object'' \<and> attr \<noteq> ''__dict__'' \<and>
      BaseObjectWrapper_setattr h w attr v = Inr (h', w') \<longrightarrow> unwrap w' = Inr x)"
proof -
  have a: "unwrap w = Inr (VRef revit_object)"
    if "BaseObjectWrapper_call h revit_object enforce_type = Inr w"
    using that unfolding BaseObjectWrapper_call_def by (rule BaseObjectWrapper_init_unwrap)
  have b: "unwrap w1 = Inr (VRef revit_object)"
    if c: "Element_call classes cls h revit_object = Inr (g, w1)" and s: "issubclass (wclass w1) cls"
  proof (cases "issubclass cls Element_cls")
    case True
    with c obtain obj where n: "Element_new classes cls h revit_object = Inr obj"
      by (cases "Element_new classes cls h revit_object") (simp_all add: Element_call_def)
    show ?thesis
    proof (cases "issubclass (wclass obj) cls")
      case sub: True
      with c n True have "Element_init h obj revit_object = Inr (g, w1)"
        by (simp add: Element_call_def)
      then show ?thesis by (rule Element_init_unwrap)
    next
      case False
      with c n True have "w1 = obj" by (simp add: Element_call_def)
      with False s show ?thesis by simp
    qed
  next
    case False
    with c obtain obj where "BaseObjectWrapper_init h (object_new cls) revit_object None = Inr obj"
      and "w1 = obj"
      by (cases "BaseObjectWrapper_init h (object_new cls) revit_object None")
         (simp_all add: Element_call_def)
    then show ?thesis by (simp add: BaseObjectWrapper_init_unwrap)
  qed
  have d: "unwrap w' = Inr x"
    if "unwrap w = Inr x" "attr \<noteq> ''_revit_object''" "attr \<noteq> ''__dict__''"
       "BaseObjectWrapper_setattr h w attr v = Inr (h', w')"
    using that by (rule setattr_keeps_reference)
  from a b d show ?thesis by blast
qed

lemma demo_base_wrapper:
  "BaseObjectWrapper_call demo_heap 2 None =
     Inr \<lparr>wclass = BaseObjectWrapper_cls, wdict = [(''_revit_object'', VRef 2)]\<rparr>"
  by (simp add: BaseObjectWrapper_call_def BaseObjectWrapper_init_def object_new_def)

lemma demo_base_setattr_local:
  "BaseObjectWrapper_setattr demo_heap
     \<lparr>wclass = BaseObjectWrapper_cls, wdict = [(''_revit_object'', VRef 2)]\<rparr> ''index'' (VInt 3) =
   Inr (demo_heap, \<lparr>wclass = BaseObjectWrapper_cls,
                    wdict = [(''_revit_object'', VRef 2), (''index'', VInt 3)]\<rparr>)"
  by (simp add: BaseObjectWrapper_setattr_def self_revit_object_def hasattr_def demo_objects
      object_setattr_def BaseObjectWrapper_cls_def)

lemma demo_symbol_7:
  "Element_call demo_classes Symbol_cls demo_heap 7 = Inr (demo_heap, wrapper_of Symbol_cls 7)"
proof -
  have fm: "first_match demo_classes ''FamilySymbol'' = Some Symbol_cls"
    by (simp add: demo_classes_def demo_tags)
  have ne: "Symbol_cls \<noteq> Element_cls" by (simp add: Symbol_cls_def Element_cls_def)
  have sub: "issubclass Symbol_cls Element_cls" "issubclass Symbol_cls Symbol_cls"
    by (simp_all add: issubclass_def Symbol_cls_def Element_cls_def)
  have new: "Element_new demo_classes Symbol_cls demo_heap 7 = Inr (object_new Symbol_cls)"
    by (simp add: Element_new_def demo_objects mro_def fm ne demo_tags isinstance_def)
  have init: "Element_init demo_heap (object_new Symbol_cls) 7 = Inr (demo_heap, wrapper_of Symbol_cls 7)"
    by (simp add: Element_init_def BaseObjectWrapper_init_def object_new_def isinstance_def
        BaseObjectWrapper_setattr_def self_revit_object_def hasattr_def object_setattr_def
        wrapper_of_def demo_objects mro_def Symbol_cls_def)
  have "wclass (object_new Symbol_cls) = Symbol_cls" by (simp add: object_new_def)
  with new init sub show ?thesis by (simp add: Element_call_def)
qed

theorem unwrap_identity_witness:
  "BaseObjectWrapper_call demo_heap 2 None =
     Inr \<lparr>wclass = BaseObjectWrapper_cls, wdict = [(''_revit_object'', VRef 2)]\<rparr> \<and>
   unwrap \<lparr>wclass = BaseObjectWrapper_cls, wdict = [(''_revit_object'', VRef 2)]\<rparr> = Inr (VRef 2) \<and>
   Element_call demo_classes Symbol_cls demo_heap 7 = Inr (demo_heap, wrapper_of Symbol_cls 7) \<and>
   issubclass (wclass (wrapper_of Symbol_cls 7)) Symbol_cls \<and>
   unwrap (wrapper_of Symbol_cls 7) = Inr (VRef 7) \<and>
   ''index'' \<noteq> ''_revit_object'' \<and> ''index'' \<noteq> ''__dict__'' \<and>
   BaseObjectWrapper_setattr demo_heap
     \<lparr>wclass = BaseObjectWrapper_cls, wdict = [(''_revit_object'', VRef 2)]\<rparr> ''index'' (VInt 3) =
   Inr (demo_heap, \<lparr>wclass = BaseObjectWrapper_cls,
                    wdict = [(''_revit_object'', VRef 2), (''index'', VInt 3)]\<rparr>) \<and>
   unwrap \<lparr>wclass = BaseObjectWrapper_cls,
           wdict = [(''_revit_object'', VRef 2), (''index'', VInt 3)]\<rparr> = Inr (VRef 2)"
proof -
  have s: "issubclass (wclass (wrapper_of Symbol_cls 7)) Symbol_cls"
    by (simp add: wrapper_of_def issubclass_def)
  from unwrap_identity [of demo_heap 2 None
      "\<lparr>wclass = BaseObjectWrapper_cls, wdict = [(''_revit_object'', VRef 2)]\<rparr>"
      demo_classes Symbol_cls demo_heap "wrapper_of Symbol_cls 7"
      "VRef 2" "''index''" "VInt 3" demo_heap
      "\<lparr>wclass = BaseObjectWrapper_cls, wdict = [(''_revit_object'', VRef 2), (''index'', VInt 3)]\<rparr>"]
    unwrap_identity [of demo_heap 7 None
      "\<lparr>wclass = BaseObjectWrapper_cls, wdict = [(''_revit_object'', VRef 2)]\<rparr>"
      demo_classes Symbol_cls demo_heap "wrapper_of Symbol_cls 7"
      "VRef 2" "''index''" "VInt 3" demo_heap
      "\<lparr>wclass = BaseObjectWrapper_cls, wdict = [(''_revit_object'', VRef 2), (''index'', VInt 3)]\<rparr>"]
    demo_base_wrapper demo_base_setattr_local demo_symbol_7 s
  show ?thesis by simp
qed

text \<open>The claim as stated fails in three ways. Writing the attribute
  \<open>_revit_object\<close> through the wrapper replaces the stored reference, and \<open>unwrap()\<close>
  then returns another object than the one passed at construction. Writing
  \<open>__dict__\<close> replaces the instance dictionary, and the stored reference is gone.
  And \<open>Element\<close> called on the category 3 returns a \<open>Category\<close> wrapper whose
  initialiser never ran: it holds no reference, and \<open>unwrap()\<close> fails.\<close>

theorem unwrap_identity_counterexample:
  "BaseObjectWrapper_call demo_heap 2 None =
     Inr \<lparr>wclass = BaseObjectWrapper_cls, wdict = [(''_revit_object'', VRef 2)]\<rparr> \<and>
   BaseObjectWrapper_setattr demo_heap
     \<lparr>wclass = BaseObjectWrapper_cls, wdict = [(''_revit_object'', VRef 2)]\<rparr>
     ''_revit_object'' (VRef 3) =
   Inr (demo_heap, \<lparr>wclass = BaseObjectWrapper_cls, wdict = [(''_revit_object'', VRef 3)]\<rparr>) \<and>
   unwrap \<lparr>wclass = BaseObjectWrapper_cls, wdict = [(''_revit_object'', VRef 3)]\<rparr> = Inr (VRef 3) \<and>
   VRef 3 \<noteq> VRef 2 \<and>
   BaseObjectWrapper_setattr demo_heap
     \<lparr>wclass = BaseObjectWrapper_cls, wdict = [(''_revit_object'', VRef 2)]\<rparr>
     ''__dict__'' (VDict []) =
   Inr (demo_heap, \<lparr>wclass = BaseObjectWrapper_cls, wdict = []\<rparr>) \<and>
   unwrap \<lparr>wclass = BaseObjectWrapper_cls, wdict = []\<rparr> = Inl (KeyError ''_revit_object'') \<and>
   Element_call demo_classes Element_cls demo_heap 3 = Inr (demo_heap, object_new Category_cls) \<and>
   unwrap (object_new Category_cls) = Inl (KeyError ''_revit_object'')"
proof -
  have a: "BaseObjectWrapper_call demo_heap 2 None =
     Inr \<lparr>wclass = BaseObjectWrapper_cls, wdict = [(''_revit_object'', VRef 2)]\<rparr>"
    by (rule demo_base_wrapper)
  have b: "BaseObjectWrapper_setattr demo_heap
     \<lparr>wclass = BaseObjectWrapper_cls, wdict = [(''_revit_object'', VRef 2)]\<rparr>
     ''_revit_object'' (VRef 3) =
   Inr (demo_heap, \<lparr>wclass = BaseObjectWrapper_cls, wdict = [(''_revit_object'', VRef 3)]\<rparr>)"
    by (simp add: BaseObjectWrapper_setattr_def self_revit_object_def hasattr_def demo_objects
        object_setattr_def BaseObjectWrapper_cls_def)
  have c: "BaseObjectWrapper_setattr demo_heap
     \<lparr>wclass = BaseObjectWrapper_cls, wdict = [(''_revit_object'', VRef 2)]\<rparr>
     ''__dict__'' (VDict []) =
   Inr (demo_heap, \<lparr>wclass = BaseObjectWrapper_cls, wdict = []\<rparr>)"
    by (simp add: BaseObjectWrapper_setattr_def self_revit_object_def hasattr_def demo_objects
        object_setattr_def BaseObjectWrapper_cls_def)
  have fm: "first_match demo_classes ''Category'' = Some Category_cls"
    by (simp add: demo_classes_def demo_tags)
  have n: "\<not> issubclass Category_cls Element_cls"
    by (simp add: issubclass_def Category_cls_def Element_cls_def)
  have d: "Element_call demo_classes Element_cls demo_heap 3 = Inr (demo_heap, object_new Category_cls)"
    using n by (simp add: Element_call_def Element_subclass_self Element_new_def demo_objects fm
        object_new_def)
  have e: "unwrap \<lparr>wclass = BaseObjectWrapper_cls, wdict = [(''_revit_object'', VRef 3)]\<rparr> = Inr (VRef 3)"
    "unwrap \<lparr>wclass = BaseObjectWrapper_cls, wdict = []\<rparr> = Inl (KeyError ''_revit_object'')"
    "unwrap (object_new Category_cls) = Inl (KeyError ''_revit_object'')"
    by (simp_all add: unwrap_def self_revit_object_def object_new_def)
  from a b c d e show ?thesis by simp
qed

text \<open>
  C4, as amended. For a wrapper whose stored reference is the object \<open>r\<close>. When \<open>r\<close>
  exposes the attribute \<open>X\<close> the write goes to \<open>r\<close> and the wrapper stays as it was:
  if \<open>r\<close> accepts the assignment, the attribute of \<open>r\<close> becomes \<open>v\<close> and every other
  object is unchanged; if \<open>X\<close> is a read-only member of \<open>r\<close>, the write fails with
  the attribute error of \<open>r\<close>. When \<open>r\<close> does not expose \<open>X\<close> the write goes to the
  wrapper and the heap stays as it was: a read-only property of the wrapper's class
  rejects it; \<open>__dict__\<close> replaces the instance dictionary by the dictionary given,
  and rejects another value; \<open>__class__\<close> and \<open>__weakref__\<close> are rejected; under any
  other name the value is stored in the wrapper's own dictionary.
\<close>

theorem setattr_forwarding:
  assumes "self_revit_object w = Inr (VRef r)"
  shows "(hasattr (h r) X \<and> X \<notin> set (readonly_names (h r)) \<longrightarrow>
            BaseObjectWrapper_setattr h w X v =
              Inr (h(r := (h r)\<lparr>oattrs := AList.update X v (oattrs (h r))\<rparr>), w) \<and>
            py_getattr (h(r := (h r)\<lparr>oattrs := AList.update X v (oattrs (h r))\<rparr>)) (VRef r) X =
              Inr v) \<and>
         (hasattr (h r) X \<and> X \<in> set (readonly_names (h r)) \<longrightarrow>
            BaseObjectWrapper_setattr h w X v = Inl (AttributeError X)) \<and>
         (\<not> hasattr (h r) X \<and> X \<in> set (cproperties (wclass w)) \<longrightarrow>
            BaseObjectWrapper_setattr h w X v = Inl (AttributeError X)) \<and>
         (\<not> hasattr (h r) X \<and> X \<notin> set (cproperties (wclass w)) \<and>
            X \<notin> set [''__dict__'', ''__class__'', ''__weakref__''] \<longrightarrow>
            BaseObjectWrapper_setattr h w X v =
              Inr (h, w\<lparr>wdict := AList.update X v (wdict w)\<rparr>) \<and>
            map_of (AList.update X v (wdict w)) X = Some v) \<and>
         (\<not> hasattr (h r) X \<and> X \<notin> set (cproperties (wclass w)) \<and> X = ''__dict__'' \<longrightarrow>
            BaseObjectWrapper_setattr h w X v =
              (case v of VDict d \<Rightarrow> Inr (h, w\<lparr>wdict := d\<rparr>) | _ \<Rightarrow> Inl PyTypeError)) \<and>
         (\<not> hasattr (h r) X \<and> X \<notin> set (cproperties (wclass w)) \<and> X = ''__class__'' \<longrightarrow>
            BaseObjectWrapper_setattr h w X v = Inl PyTypeError) \<and>
         (\<not> hasattr (h r) X \<and> X \<notin> set (cproperties (wclass w)) \<and> X = ''__weakref__'' \<longrightarrow>
            BaseObjectWrapper_setattr h w X v = Inl (AttributeError X))"
proof -
  have fwd: "BaseObjectWrapper_setattr h w X v =
      (case obj_setattr (h r) X v of Inl e \<Rightarrow> Inl e | Inr ob \<Rightarrow> Inr (h(r := ob), w))"
    if "hasattr (h r) X"
    using assms that by (simp add: BaseObjectWrapper_setattr_def)
  have loc: "BaseObjectWrapper_setattr h w X v =
      (case object_setattr w X v of Inl e \<Rightarrow> Inl e | Inr w' \<Rightarrow> Inr (h, w'))"
    if "\<not> hasattr (h r) X"
    using assms that by (simp add: BaseObjectWrapper_setattr_def)
  have c1: "BaseObjectWrapper_setattr h w X v =
              Inr (h(r := (h r)\<lparr>oattrs := AList.update X v (oattrs (h r))\<rparr>), w) \<and>
            py_getattr (h(r := (h r)\<lparr>oattrs := AList.update X v (oattrs (h r))\<rparr>)) (VRef r) X =
              Inr v"
    if "hasattr (h r) X" "X \<notin> set (readonly_names (h r))"
    using that by (simp add: fwd obj_setattr_def py_getattr_def update_conv')
  have c2: "BaseObjectWrapper_setattr h w X v = Inl (AttributeError X)"
    if "hasattr (h r) X" "X \<in> set (readonly_names (h r))"
    using that by (simp add: fwd obj_setattr_def)
  have c3: "BaseObjectWrapper_setattr h w X v = Inl (AttributeError X)"
    if "\<not> hasattr (h r) X" "X \<in> set (cproperties (wclass w))"
    using that by (simp add: loc object_setattr_def)
  have c4: "BaseObjectWrapper_setattr h w X v =
              Inr (h, w\<lparr>wdict := AList.update X v (wdict w)\<rparr>) \<and>
            map_of (AList.update X v (wdict w)) X = Some v"
    if "\<not> hasattr (h r) X" "X \<notin> set (cproperties (wclass w))"
       "X \<notin> set [''__dict__'', ''__class__'', ''__weakref__'']"
    using that by (simp add: loc object_setattr_def update_conv')
  have c5: "BaseObjectWrapper_setattr h w X v =
              (case v of VDict d \<Rightarrow> Inr (h, w\<lparr>wdict := d\<rparr>) | _ \<Rightarrow> Inl PyTypeError)"
    if "\<not> hasattr (h r) X" "X \<notin> set (cproperties (wclass w))" "X = ''__dict__''"
    using that loc [OF that(1)] by (cases v) (simp_all add: object_setattr_def)
  have c6: "BaseObjectWrapper_setattr h w X v = Inl PyTypeError"
    if "\<not> hasattr (h r) X" "X \<notin> set (cproperties (wclass w))" "X = ''__class__''"
    using that loc [OF that(1)] by (simp add: object_setattr_def)
  have c7: "BaseObjectWrapper_setattr h w X v = Inl (AttributeError X)"
    if "\<not> hasattr (h r) X" "X \<notin> set (cproperties (wclass w))" "X = ''__weakref__''"
    using that loc [OF that(1)] by (simp add: object_setattr_def)
  from c1 c2 c3 c4 c5 c6 c7 show ?thesis by blast
qed

lemma demo_readonly:
  "readonly_names (demo_heap 7) = [''Id'', ''Family'']"
  "readonly_names (demo_heap 2) = [''Id'']"
  by (simp_all add: readonly_names_def demo_objects Abs_ro_name_inverse)

theorem setattr_forwarding_witness:
  "self_revit_object (wrapper_of Symbol_cls 7) = Inr (VRef 7) \<and>
   hasattr (demo_heap 7) ''Id'' \<and> ''Id'' \<in> set (readonly_names (demo_heap 7)) \<and>
   BaseObjectWrapper_setattr demo_heap (wrapper_of Symbol_cls 7) ''Id'' (VInt 9) =
     Inl (AttributeError ''Id'') \<and>
   \<not> hasattr (demo_heap 7) ''index'' \<and>
   ''index'' \<notin> set (cproperties (wclass (wrapper_of Symbol_cls 7))) \<and>
   BaseObjectWrapper_setattr demo_heap (wrapper_of Symbol_cls 7) ''index'' (VInt 9) =
     Inr (demo_heap, (wrapper_of Symbol_cls 7)
            \<lparr>wdict := AList.update ''index'' (VInt 9) (wdict (wrapper_of Symbol_cls 7))\<rparr>) \<and>
   \<not> hasattr (demo_heap 7) ''name'' \<and>
   ''name'' \<in> set (cproperties (wclass (wrapper_of Symbol_cls 7))) \<and>
   BaseObjectWrapper_setattr demo_heap (wrapper_of Symbol_cls 7) ''name'' (VInt 9) =
     Inl (AttributeError ''name'') \<and>
   \<not> hasattr (demo_heap 7) ''__dict__'' \<and>
   BaseObjectWrapper_setattr demo_heap (wrapper_of Symbol_cls 7) ''__dict__'' (VDict []) =
     Inr (demo_heap, (wrapper_of Symbol_cls 7)\<lparr>wdict := []\<rparr>) \<and>
   BaseObjectWrapper_setattr demo_heap (wrapper_of Symbol_cls 7) ''__class__'' (VInt 9) =
     Inl PyTypeError \<and>
   BaseObjectWrapper_setattr demo_heap (wrapper_of Symbol_cls 7) ''__weakref__'' (VInt 9) =
     Inl (AttributeError ''__weakref__'') \<and>
   self_revit_object (wrapper_of Element_cls 2) = Inr (VRef 2) \<and>
   hasattr (demo_heap 2) ''Pinned'' \<and> ''Pinned'' \<notin> set (readonly_names (demo_heap 2)) \<and>
   BaseObjectWrapper_setattr demo_heap (wrapper_of Element_cls 2) ''Pinned'' (VBool True) =
     Inr (demo_heap(2 := (demo_heap 2)
            \<lparr>oattrs := AList.update ''Pinned'' (VBool True) (oattrs (demo_heap 2))\<rparr>),
          wrapper_of Element_cls 2) \<and>
   py_getattr (demo_heap(2 := (demo_heap 2)
            \<lparr>oattrs := AList.update ''Pinned'' (VBool True) (oattrs (demo_heap 2))\<rparr>))
     (VRef 2) ''Pinned'' = Inr (VBool True)"
proof -
  have a: "self_revit_object (wrapper_of Symbol_cls 7) = Inr (VRef 7)"
    "self_revit_object (wrapper_of Element_cls 2) = Inr (VRef 2)"
    by (simp_all add: self_revit_object_def wrapper_of_def)
  have b: "hasattr (demo_heap 7) ''Id''" "\<not> hasattr (demo_heap 7) ''index''"
    "\<not> hasattr (demo_heap 7) ''name''" "\<not> hasattr (demo_heap 7) ''__dict__''"
    "\<not> hasattr (demo_heap 7) ''__class__''" "\<not> hasattr (demo_heap 7) ''__weakref__''"
    "hasattr (demo_heap 2) ''Pinned''"
    by (simp_all add: hasattr_def demo_objects)
  have c: "''index'' \<notin> set (cproperties (wclass (wrapper_of Symbol_cls 7)))"
    "''name'' \<in> set (cproperties (wclass (wrapper_of Symbol_cls 7)))"
    "''__dict__'' \<notin> set (cproperties (wclass (wrapper_of Symbol_cls 7)))"
    "''__class__'' \<notin> set (cproperties (wclass (wrapper_of Symbol_cls 7)))"
    "''__weakref__'' \<notin> set (cproperties (wclass (wrapper_of Symbol_cls 7)))"
    by (simp_all add: wrapper_of_def Symbol_cls_def)
  have d: "''Id'' \<in> set (readonly_names (demo_heap 7))"
    "''Pinned'' \<notin> set (readonly_names (demo_heap 2))"
    by (simp_all add: demo_readonly)
  from setattr_forwarding [OF a(1), of demo_heap "''Id''" "VInt 9"]
       setattr_forwarding [OF a(1), of demo_heap "''index''" "VInt 9"]
       setattr_forwarding [OF a(1), of demo_heap "''name''" "VInt 9"]
       setattr_forwarding [OF a(1), of demo_heap "''__dict__''" "VDict []"]
       setattr_forwarding [OF a(1), of demo_heap "''__class__''" "VInt 9"]
       setattr_forwarding [OF a(1), of demo_heap "''__weakref__''" "VInt 9"]
       setattr_forwarding [OF a(2), of demo_heap "''Pinned''" "VBool True"]
       a b c d
  show ?thesis by simp
qed

text \<open>The claim as stated fails on both of its halves. The symbol 7 exposes \<open>Id\<close>
  as a read-only member: the write is forwarded and rejected, and \<open>Id\<close> does not
  become the value written. The symbol does not expose \<open>name\<close>, a read-only property
  of \<open>Symbol\<close>: the write is rejected instead of being stored on the wrapper that
  the constructor returned. It does not expose \<open>__dict__\<close> either: the write
  replaces the wrapper's dictionary instead of storing an attribute in it.\<close>

theorem setattr_forwarding_counterexample:
  "Element_call demo_classes Symbol_cls demo_heap 7 = Inr (demo_heap, wrapper_of Symbol_cls 7) \<and>
   hasattr (demo_heap 7) ''Id'' \<and>
   BaseObjectWrapper_setattr demo_heap (wrapper_of Symbol_cls 7) ''Id'' (VInt 9) =
     Inl (AttributeError ''Id'') \<and>
   \<not> hasattr (demo_heap 7) ''name'' \<and>
   BaseObjectWrapper_setattr demo_heap (wrapper_of Symbol_cls 7) ''name'' (VStr ''x'') =
     Inl (AttributeError ''name'') \<and>
   \<not> hasattr (demo_heap 7) ''__dict__'' \<and>
   BaseObjectWrapper_setattr demo_heap (wrapper_of Symbol_cls 7) ''__dict__'' (VDict []) =
     Inr (demo_heap, \<lparr>wclass = Symbol_cls, wdict = []\<rparr>)"
proof -
  have props: "cproperties Symbol_cls = [''name'', ''family'', ''instances'', ''siblings'', ''category'']"
    by (simp add: Symbol_cls_def)
  have h: "hasattr (demo_heap 7) ''Id''" "\<not> hasattr (demo_heap 7) ''name''"
    "\<not> hasattr (demo_heap 7) ''__dict__''"
    by (simp_all add: hasattr_def demo_objects)
  have r: "self_revit_object (wrapper_of Symbol_cls 7) = Inr (VRef 7)"
    by (simp add: self_revit_object_def wrapper_of_def)
  have w: "wclass (wrapper_of Symbol_cls 7) = Symbol_cls" by (simp add: wrapper_of_def)
  have a: "BaseObjectWrapper_setattr demo_heap (wrapper_of Symbol_cls 7) ''Id'' (VInt 9) =
     Inl (AttributeError ''Id'')"
    by (simp add: BaseObjectWrapper_setattr_def r h obj_setattr_def demo_readonly)
  have b: "BaseObjectWrapper_setattr demo_heap (wrapper_of Symbol_cls 7) ''name'' (VStr ''x'') =
     Inl (AttributeError ''name'')"
    by (simp add: BaseObjectWrapper_setattr_def r h object_setattr_def w props)
  have c: "BaseObjectWrapper_setattr demo_heap (wrapper_of Symbol_cls 7) ''__dict__'' (VDict []) =
     Inr (demo_heap, \<lparr>wclass = Symbol_cls, wdict = []\<rparr>)"
  proof -
    have "BaseObjectWrapper_setattr demo_heap (wrapper_of Symbol_cls 7) ''__dict__'' (VDict []) =
       Inr (demo_heap, (wrapper_of Symbol_cls 7)\<lparr>wdict := []\<rparr>)"
      by (simp add: BaseObjectWrapper_setattr_def r h object_setattr_def w props)
    then show ?thesis by (simp add: wrapper_of_def)
  qed
  from demo_symbol_7 h a b c show ?thesis by simp
qed

section \<open>Properties of collect\<close>

lemma dict_update_keys: "fst ` set (dict_update d e) = fst ` set d \<union> fst ` set e"
  unfolding dict_update_def
proof (induction e arbitrary: d)
  case Nil
  show ?case by simp
next
  case (Cons p e)
  obtain k v where p: "p = (k, v)" by (cases p)
  have "fst ` set (fold (\<lambda>(k, v). AList.update k v) e (AList.update k v d)) =
        fst ` set (AList.update k v d) \<union> fst ` set e"
    by (rule Cons.IH)
  also have "fst ` set (AList.update k v d) = {k} \<union> fst ` set d"
    by (rule dom_update)
  finally show ?case by (simp add: p Un_commute Un_left_commute insert_commute)
qed

lemma dict_update_map_of:
  "map_of (dict_update d e) = map_of d ++ map_of (rev e)"
  unfolding dict_update_def
proof (induction e arbitrary: d)
  case Nil
  show ?case by simp
next
  case (Cons p e)
  obtain k v where p: "p = (k, v)" by (cases p)
  have "map_of (fold (\<lambda>(k, v). AList.update k v) e (AList.update k v d)) =
        map_of (AList.update k v d) ++ map_of (rev e)"
    by (rule Cons.IH)
  also have "\<dots> = (map_of d ++ [k \<mapsto> v]) ++ map_of (rev e)"
    by (simp add: update_conv')
  finally show ?case by (simp add: p)
qed

lemma dict_update_caller:
  assumes "k \<notin> fst ` set e"
  shows "map_of (dict_update d e) k = map_of d k"
proof -
  from assms have "map_of (rev e) k = None" by (simp add: map_of_eq_None_iff)
  then show ?thesis by (simp add: dict_update_map_of map_add_def)
qed

lemma dict_update_default:
  assumes "distinct (map fst e)" and "k \<notin> fst ` set d"
  shows "map_of (dict_update d e) k = map_of e k"
proof -
  from assms(1) have r: "map_of (rev e) = map_of e"
    by (subst map_of_inject_set) (simp_all add: rev_map [symmetric])
  from assms(2) have "map_of d k = None" by (simp add: map_of_eq_None_iff)
  then show ?thesis by (simp add: dict_update_map_of r map_add_def split: option.splits)
qed

text \<open>
  C3, as amended. \<open>collect\<close> exists on \<open>Element\<close> and the classes derived from it: on
  another wrapper class (\<open>Category\<close>) the call is an attribute error. On a class
  derived from \<open>Element\<close> whose default query is not declared or is empty (the generic
  \<open>Element\<close>), \<open>collect()\<close> raises the exception "Wrapper cannot collect by class"
  with the name of the class. On a class derived from \<open>Element\<close> that declares a
  default query which is not empty, \<open>collect(**kwargs)\<close> issues a query whose keys are
  the caller's keys together with the default keys; a caller-supplied filter whose
  key is not among the defaults reaches the query with the caller's value, and a
  default whose key the caller did not supply reaches it with its declared value.
\<close>

theorem collect_defaults:
  "(\<not> issubclass cls Element_cls \<longrightarrow> call_collect cls kwargs = Inl (AttributeError ''collect'')) \<and>
   (issubclass cls Element_cls \<and> (collector_params cls = None \<or> collector_params cls = Some []) \<longrightarrow>
      call_collect cls kwargs =
        Inl (RPW_Exception (''Wrapper cannot collect by class: '' @ cname cls))) \<and>
   (issubclass cls Element_cls \<and> collector_params cls = Some ps \<and> ps \<noteq> [] \<and>
    distinct (map fst ps) \<longrightarrow>
      (\<exists>d. call_collect cls kwargs = Inr d \<and>
           fst ` set d = fst ` set kwargs \<union> fst ` set ps \<and>
           (\<forall>k. k \<notin> fst ` set ps \<longrightarrow> map_of d k = map_of kwargs k) \<and>
           (\<forall>k. k \<notin> fst ` set kwargs \<longrightarrow> map_of d k = map_of ps k)))"
proof -
  have a: "call_collect cls kwargs = Inl (AttributeError ''collect'')"
    if "\<not> issubclass cls Element_cls"
    using that by (simp add: call_collect_def)
  have b: "call_collect cls kwargs =
        Inl (RPW_Exception (''Wrapper cannot collect by class: '' @ cname cls))"
    if "issubclass cls Element_cls" "collector_params cls = None \<or> collector_params cls = Some []"
    using that by (auto simp: call_collect_def collect_def)
  have c: "\<exists>d. call_collect cls kwargs = Inr d \<and>
           fst ` set d = fst ` set kwargs \<union> fst ` set ps \<and>
           (\<forall>k. k \<notin> fst ` set ps \<longrightarrow> map_of d k = map_of kwargs k) \<and>
           (\<forall>k. k \<notin> fst ` set kwargs \<longrightarrow> map_of d k = map_of ps k)"
    if "issubclass cls Element_cls" "collector_params cls = Some ps" "ps \<noteq> []"
       "distinct (map fst ps)"
  proof -
    from that have "call_collect cls kwargs = Inr (dict_update kwargs ps)"
      by (simp add: call_collect_def collect_def)
    with that(4) show ?thesis
      by (simp add: dict_update_keys dict_update_caller dict_update_default)
  qed
  from a b c show ?thesis by blast
qed

theorem collect_defaults_witness:
  "\<not> issubclass Category_cls Element_cls \<and>
   call_collect Category_cls [] = Inl (AttributeError ''collect'') \<and>
   issubclass Element_cls Element_cls \<and> collector_params Element_cls = None \<and>
   call_collect Element_cls [] =
     Inl (RPW_Exception ''Wrapper cannot collect by class: Element'') \<and>
   issubclass Instance_cls Element_cls \<and>
   collector_params Instance_cls =
     Some [(''of_class'', VType ''FamilyInstance''), (''is_not_type'', VBool True)] \<and>
   distinct (map fst [(''of_class'', VType ''FamilyInstance''), (''is_not_type'', VBool True)]) \<and>
   call_collect Instance_cls [(''level'', VInt 1)] =
     Inr [(''level'', VInt 1), (''of_class'', VType ''FamilyInstance''),
          (''is_not_type'', VBool True)]"
proof -
  have n: "\<not> issubclass Category_cls Element_cls"
    by (simp add: issubclass_def Category_cls_def Element_cls_def)
  have e: "collector_params Element_cls = None" "cname Element_cls = ''Element''"
    by (simp_all add: Element_cls_def)
  have a: "issubclass Instance_cls Element_cls"
    by (simp add: issubclass_def Instance_cls_def Element_cls_def)
  have b: "collector_params Instance_cls =
     Some [(''of_class'', VType ''FamilyInstance''), (''is_not_type'', VBool True)]"
    by (simp add: Instance_cls_def)
  have c: "call_collect Instance_cls [(''level'', VInt 1)] =
     Inr [(''level'', VInt 1), (''of_class'', VType ''FamilyInstance''),
          (''is_not_type'', VBool True)]"
    by (simp add: call_collect_def a collect_def b dict_update_def)
  from collect_defaults [of Category_cls "[]" "[]"]
       collect_defaults [of Element_cls "[]" "[]"]
       collect_defaults [of Instance_cls "[(''level'', VInt 1)]"
         "[(''of_class'', VType ''FamilyInstance''), (''is_not_type'', VBool True)]"]
       n e a b c Element_subclass_self
  show ?thesis by simp
qed

text \<open>The claim as stated fails on three counts: \<open>Category.collect()\<close> is an
  attribute error, not the exception of \<open>collect\<close>; a caller-supplied filter is
  replaced by the declared default of the same key; and a class that declares the
  empty dictionary as its default query raises the exception instead of issuing the
  caller's query.\<close>

theorem collect_defaults_counterexample:
  "call_collect Category_cls [] = Inl (AttributeError ''collect'') \<and>
   call_collect Instance_cls [(''is_not_type'', VBool False)] =
     Inr [(''is_not_type'', VBool True), (''of_class'', VType ''FamilyInstance'')] \<and>
   collector_params Blank_cls = Some [] \<and>
   call_collect Blank_cls [(''level'', VInt 1)] =
     Inl (RPW_Exception ''Wrapper cannot collect by class: Blank'')"
  by (simp add: collect_def call_collect_def Element_cls_def Category_cls_def Instance_cls_def
      Blank_cls_def issubclass_def dict_update_def)

section \<open>Properties of the family and category wrappers\<close>

lemma Element_call_generic:
  assumes "first_match classes (otype (h r)) = Some W"
      and "issubclass W Element_cls"
      and "isinstance h r ''Element''"
      and "\<not> hasattr (h r) ''parameters''"
      and "''parameters'' \<notin> set (cproperties W)"
  shows "Element_call classes Element_cls h r = Inr (h, wrapper_of W r)"
  using assms
  by (simp add: Element_call_def Element_subclass_self Element_new_def object_new_def
      Element_init_def BaseObjectWrapper_init_def BaseObjectWrapper_setattr_def
      self_revit_object_def object_setattr_def wrapper_of_def)

lemma demo_first_match:
  "first_match demo_classes ''FamilySymbol'' = Some Symbol_cls"
  "first_match demo_classes ''Family'' = Some Family_cls"
  by (simp_all add: demo_classes_def demo_tags)

lemma demo_subclasses:
  "issubclass Symbol_cls Element_cls" "issubclass Family_cls Element_cls"
  "issubclass Family_cls Family_cls"
  by (simp_all add: issubclass_def Symbol_cls_def Family_cls_def Element_cls_def)

lemma demo_no_parameters:
  "''parameters'' \<notin> set (cproperties Symbol_cls)" "''parameters'' \<notin> set (cproperties Family_cls)"
  by (simp_all add: Symbol_cls_def Family_cls_def)

lemma demo_factory_symbol_8:
  "Element_Factory demo_env demo_heap 8 = Inr (demo_heap, wrapper_of Symbol_cls 8)"
  unfolding Element_Factory_def
  by (simp add: demo_env_def, rule Element_call_generic)
     (simp_all add: demo_objects demo_first_match demo_subclasses demo_no_parameters
        isinstance_def mro_def hasattr_def)

lemma demo_factory_symbol_7:
  "Element_Factory demo_env demo_heap 7 = Inr (demo_heap, wrapper_of Symbol_cls 7)"
  unfolding Element_Factory_def
  by (simp add: demo_env_def, rule Element_call_generic)
     (simp_all add: demo_objects demo_first_match demo_subclasses demo_no_parameters
        isinstance_def mro_def hasattr_def)

lemma demo_factory_family_6:
  "Element_call demo_classes Element_cls demo_heap 6 = Inr (demo_heap, wrapper_of Family_cls 6)"
  by (rule Element_call_generic)
     (simp_all add: demo_objects demo_first_match demo_subclasses demo_no_parameters
        isinstance_def mro_def hasattr_def)

lemma demo_family_4:
  "Element_call demo_classes Family_cls demo_heap 4 = Inr (demo_heap, wrapper_of Family_cls 4)"
proof -
  have ne: "Family_cls \<noteq> Element_cls" by (simp add: Family_cls_def Element_cls_def)
  show ?thesis
    by (simp add: Element_call_def Element_new_def ne demo_tags demo_objects demo_first_match
        demo_subclasses demo_no_parameters isinstance_def mro_def hasattr_def object_new_def
        Element_init_def BaseObjectWrapper_init_def BaseObjectWrapper_setattr_def
        self_revit_object_def object_setattr_def wrapper_of_def)
qed

lemma wrapper_of_revit_object: "self_revit_object (wrapper_of c r) = Inr (VRef r)"
  by (simp add: self_revit_object_def wrapper_of_def)

lemma demo_symbols:
  "Family_symbols demo_env demo_heap (wrapper_of Family_cls 6) = Inr []"
  "Family_symbols demo_env demo_heap (wrapper_of Family_cls 4) = Inr [8, 7]"
  by (simp_all add: Family_symbols_def wrapper_of_revit_object py_getattr_def demo_objects
      demo_env_def)

lemma Family_name_recursion:
  "Family_symbols ev h self = Inr [] \<Longrightarrow> Family_name ev depth h self = Inl RuntimeError"
  by (induction depth) simp_all

text \<open>
  C6. For a family without symbols the evaluation of \<open>name\<close> never reaches the
  \<open>raise\<close> of the domain error: building the message evaluates \<open>self.name\<close> again,
  and whatever nesting the interpreter allows, the result is its recursion error,
  not an \<open>RPW_Exception\<close>.
\<close>

theorem Family_name_no_symbols:
  assumes "Family_symbols ev h self = Inr []"
  shows "Family_name ev depth h self = Inl RuntimeError \<and>
         Family_name ev depth h self \<noteq> Inl (RPW_Exception msg)"
  using Family_name_recursion [OF assms, of depth] by simp

theorem Family_name_no_symbols_witness:
  "Family_symbols demo_env demo_heap (wrapper_of Family_cls 6) = Inr [] \<and>
   Family_name demo_env 1000 demo_heap (wrapper_of Family_cls 6) = Inl RuntimeError"
  using Family_name_no_symbols [of demo_env demo_heap "wrapper_of Family_cls 6" 1000 "[]"]
    demo_symbols(1)
  by simp

lemma demo_family_name:
  "Family_name demo_env (Suc 0) demo_heap (wrapper_of Family_cls 4) = Inr (demo_heap, VStr ''Desk'')"
proof -
  have "wrapper_attr demo_heap (wrapper_of Symbol_cls 8) ''parameters'' = Inr (VParameterSet 8)"
    by (simp add: wrapper_attr_def wrapper_of_def)
  moreover have "builtin_value demo_env (VParameterSet 8) ''SYMBOL_FAMILY_NAME_PARAM'' = Inr (VStr ''Desk'')"
    by (simp add: demo_env_def)
  ultimately show ?thesis
    by (simp add: demo_symbols demo_factory_symbol_8)
qed

text \<open>
  C7, as amended. For a wrapper whose stored reference is set, the representation
  built by \<open>BaseObjectWrapper.__repr__\<close> is returned, and it is
  \<open><RPW_\<close>, the name of the wrapper's class, \<open>: \<close>, the data, \<open>>\<close>, where the data
  are those supplied when they are true and the name of the wrapped object's type
  otherwise; \<open>Element.__repr__\<close> supplies the identifier of the wrapped object when it
  is given no data; \<open>Family.__repr__\<close> supplies the family's name, returns that form
  when the name is obtained and fails with the failure of \<open>name\<close> otherwise.
\<close>

theorem repr_form:
  assumes "self_revit_object self = Inr x"
  shows "BaseObjectWrapper_repr ev h self data =
           Inr (''<RPW_'' @ cname (wclass self) @ '': '' @
                (if py_truthy data then py_format ev data else py_type_name h x) @ ''>'') \<and>
         Element_repr ev h self data =
           Inr (''<RPW_'' @ cname (wclass self) @ '': '' @
                py_format ev (if py_truthy data then data
                   else VDict [(''id'', (case py_getattr h x ''Id'' of Inr v \<Rightarrow> v | Inl _ \<Rightarrow> VNone))]) @
                ''>'') \<and>
         (Family_name ev depth h self = Inr (h', n) \<longrightarrow>
            Family_repr ev depth h self =
              Inr (h', ''<RPW_'' @ cname (wclass self) @ '': '' @
                       py_format ev (VDict [(''name'', n)]) @ ''>'')) \<and>
         (Family_name ev depth h self = Inl e \<longrightarrow> Family_repr ev depth h self = Inl e)"
proof -
  have base: "BaseObjectWrapper_repr ev g self d =
           Inr (''<RPW_'' @ cname (wclass self) @ '': '' @
                (if py_truthy d then py_format ev d else py_type_name g x) @ ''>'')" for g d
    using assms by (simp add: BaseObjectWrapper_repr_def py_format_def)
  have elem: "Element_repr ev g self d =
           Inr (''<RPW_'' @ cname (wclass self) @ '': '' @
                py_format ev (if py_truthy d then d
                   else VDict [(''id'', (case py_getattr g x ''Id'' of Inr v \<Rightarrow> v | Inl _ \<Rightarrow> VNone))]) @
                ''>'')" for g d
    using assms by (simp add: Element_repr_def base)
  have fam1: "Family_repr ev depth h self =
              Inr (h', ''<RPW_'' @ cname (wclass self) @ '': '' @
                       py_format ev (VDict [(''name'', n)]) @ ''>'')"
    if "Family_name ev depth h self = Inr (h', n)"
    using that by (simp add: Family_repr_def elem)
  have fam2: "Family_repr ev depth h self = Inl e" if "Family_name ev depth h self = Inl e"
    using that by (simp add: Family_repr_def)
  from base elem fam1 fam2 show ?thesis by blast
qed

theorem repr_form_witness:
  "self_revit_object (wrapper_of Family_cls 4) = Inr (VRef 4) \<and>
   BaseObjectWrapper_repr demo_env demo_heap (wrapper_of Family_cls 4) (VStr []) =
     Inr ''<RPW_Family: Family>'' \<and>
   Family_name demo_env (Suc 0) demo_heap (wrapper_of Family_cls 4) = Inr (demo_heap, VStr ''Desk'') \<and>
   Family_repr demo_env (Suc 0) demo_heap (wrapper_of Family_cls 4) =
     Inr (demo_heap, ''<RPW_Family: ...>'') \<and>
   Family_name demo_env 1000 demo_heap (wrapper_of Family_cls 6) = Inl RuntimeError \<and>
   Family_repr demo_env 1000 demo_heap (wrapper_of Family_cls 6) = Inl RuntimeError"
proof -
  have n6: "Family_name demo_env 1000 demo_heap (wrapper_of Family_cls 6) = Inl RuntimeError"
    by (rule Family_name_recursion) (rule demo_symbols)
  have c: "cname (wclass (wrapper_of Family_cls 4)) = ''Family''"
    "cname (wclass (wrapper_of Family_cls 6)) = ''Family''"
    by (simp_all add: wrapper_of_def Family_cls_def)
  have f: "py_format demo_env (VDict [(''name'', VStr ''Desk'')]) = ''...''"
    by (simp add: py_format_def demo_env_def)
  have t: "py_type_name demo_heap (VRef 4) = ''Family''" by (simp add: demo_objects)
  from repr_form [OF wrapper_of_revit_object, of demo_env demo_heap Family_cls 4 "VStr []"
         "Suc 0" demo_heap "VStr ''Desk''" RuntimeError]
       repr_form [OF wrapper_of_revit_object, of demo_env demo_heap Family_cls 6 "VStr []"
         1000 demo_heap "VStr ''Desk''" RuntimeError]
       demo_family_name n6 c f t wrapper_of_revit_object [of Family_cls 4]
  show ?thesis by simp
qed

text \<open>The claim as stated fails: the family object 6 has no symbols; the factory
  wraps it without error, and the representation of the wrapper fails.\<close>

theorem repr_form_counterexample:
  "Element_call demo_classes Element_cls demo_heap 6 = Inr (demo_heap, wrapper_of Family_cls 6) \<and>
   Family_repr demo_env 1000 demo_heap (wrapper_of Family_cls 6) = Inl RuntimeError"
proof -
  have "Family_name demo_env 1000 demo_heap (wrapper_of Family_cls 6) = Inl RuntimeError"
    by (rule Family_name_recursion) (rule demo_symbols)
  then show ?thesis by (simp add: demo_factory_family_6 Family_repr_def)
qed

lemma demo_symbol_instances:
  "factory_instances demo_env demo_heap 8 = Inr (demo_heap, VList [VRef 5])"
  "factory_instances demo_env demo_heap 7 = Inr (demo_heap, VList [])"
proof -
  have c: "Collector_elements demo_env [(''symbol'', VInt 8), (''is_not_type'', VBool True)] = Inr [5]"
    "Collector_elements demo_env [(''symbol'', VInt 7), (''is_not_type'', VBool True)] = Inr []"
    by (simp_all add: demo_env_def demo_Collector_def)
  have i: "py_getattr demo_heap (VRef 8) ''Id'' = Inr (VInt 8)"
    "py_getattr demo_heap (VRef 7) ''Id'' = Inr (VInt 7)"
    by (simp_all add: py_getattr_def demo_objects)
  have w: "wclass (wrapper_of Symbol_cls 8) = Symbol_cls" "wclass (wrapper_of Symbol_cls 7) = Symbol_cls"
    by (simp_all add: wrapper_of_def)
  show "factory_instances demo_env demo_heap 8 = Inr (demo_heap, VList [VRef 5])"
    by (simp add: factory_instances_def demo_factory_symbol_8 w Symbol_instances_def
        wrapper_of_revit_object i c)
  show "factory_instances demo_env demo_heap 7 = Inr (demo_heap, VList [])"
    by (simp add: factory_instances_def demo_factory_symbol_7 w Symbol_instances_def
        wrapper_of_revit_object i c)
qed

text \<open>
  C8. The family object 4 owns the symbols 8 and 7; symbol 8 has the single instance 5
  and symbol 7 has none. \<open>Family.instances\<close> returns one list per symbol, nested in
  the result, and not the flat list of the instances.
\<close>

theorem Family_instances_nested:
  "Family_instances demo_env demo_heap (wrapper_of Family_cls 4) =
     Inr (demo_heap, VList [VList [VRef 5], VList []]) \<and>
   \<not> is_flat (VList [VList [VRef 5], VList []]) \<and>
   VList [VList [VRef 5], VList []] \<noteq> VList [VRef 5]"
  by (simp add: Family_instances_def demo_symbols demo_symbol_instances)

lemma set_add_distinct: "distinct s \<Longrightarrow> distinct (set_add x s)"
  by (simp add: set_add_def)

lemma families_loop_distinct:
  "families_loop ev h symbols acc = Inr (h', ids) \<Longrightarrow> distinct acc \<Longrightarrow> distinct ids"
proof (induction symbols arbitrary: h acc)
  case Nil
  then show ?case by simp
next
  case (Cons symbol rest)
  from Cons.prems(1) obtain h1 i where
    "families_loop ev h1 rest (set_add i acc) = Inr (h', ids)"
    by (auto split: sum.splits)
  moreover from Cons.prems(2) have "distinct (set_add i acc)" by (rule set_add_distinct)
  ultimately show ?case by (rule Cons.IH)
qed

text \<open>
  C10. The identifiers that \<open>Category.families\<close> collects from the symbols of the
  category are pairwise different, the property returns the elements the document
  holds under these identifiers, one for each, and when each of these elements
  carries the identifier it was fetched by, no identifier occurs twice in the
  result.
\<close>

theorem Category_families_distinct:
  assumes "Category_family_ids ev h self = Inr (h', ids)"
  shows "distinct ids \<and>
         Category_families ev h self = Inr (h', map (GetElement ev) ids) \<and>
         ((\<forall>i \<in> set ids. py_getattr h' (VRef (GetElement ev i)) ''Id'' = Inr i) \<longrightarrow>
            distinct (map (\<lambda>r. py_getattr h' (VRef r) ''Id'') (map (GetElement ev) ids)))"
proof -
  from assms obtain symbols where "families_loop ev h symbols [] = Inr (h', ids)"
    by (auto simp: Category_family_ids_def split: sum.splits)
  then have d: "distinct ids" by (rule families_loop_distinct) simp
  have f: "Category_families ev h self = Inr (h', map (GetElement ev) ids)"
    using assms by (simp add: Category_families_def)
  have "distinct (map (\<lambda>r. py_getattr h' (VRef r) ''Id'') (map (GetElement ev) ids))"
    if a: "\<forall>i \<in> set ids. py_getattr h' (VRef (GetElement ev i)) ''Id'' = Inr i"
  proof -
    have "map (\<lambda>r. py_getattr h' (VRef r) ''Id'') (map (GetElement ev) ids) =
          map (\<lambda>i. (Inr i :: error + pyval)) ids"
      using a by simp
    with d show ?thesis by (simp add: distinct_map inj_on_def)
  qed
  with d f show ?thesis by blast
qed

lemma demo_family_ids:
  "factory_family_Id demo_env demo_heap 8 = Inr (demo_heap, VInt 4)"
  "factory_family_Id demo_env demo_heap 7 = Inr (demo_heap, VInt 4)"
proof -
  have w: "wclass (wrapper_of Symbol_cls 8) = Symbol_cls" "wclass (wrapper_of Symbol_cls 7) = Symbol_cls"
    by (simp_all add: wrapper_of_def)
  have f: "py_getattr demo_heap (VRef 8) ''Family'' = Inr (VRef 4)"
    "py_getattr demo_heap (VRef 7) ''Family'' = Inr (VRef 4)"
    by (simp_all add: py_getattr_def demo_objects)
  have c: "defined_wrapper_classes demo_env = demo_classes" by (simp add: demo_env_def)
  have i: "wrapper_attr demo_heap (wrapper_of Family_cls 4) ''Id'' = Inr (VInt 4)"
    by (simp add: wrapper_attr_def wrapper_of_def BaseObjectWrapper_getattr_def py_getattr_def
        demo_objects)
  show "factory_family_Id demo_env demo_heap 8 = Inr (demo_heap, VInt 4)"
    by (simp add: factory_family_Id_def demo_factory_symbol_8 w Symbol_family_Id_def
        wrapper_of_revit_object f c demo_family_4 i)
  show "factory_family_Id demo_env demo_heap 7 = Inr (demo_heap, VInt 4)"
    by (simp add: factory_family_Id_def demo_factory_symbol_7 w Symbol_family_Id_def
        wrapper_of_revit_object f c demo_family_4 i)
qed

lemma demo_category_family_ids:
  "Category_family_ids demo_env demo_heap (wrapper_of Category_cls 3) = Inr (demo_heap, [VInt 4])"
proof -
  have "Category_symbols demo_env demo_heap (wrapper_of Category_cls 3) = Inr [8, 7]"
    by (simp add: Category_symbols_def Category_builtin_enum_def wrapper_of_revit_object
        py_getattr_def demo_objects demo_env_def demo_Collector_def)
  then show ?thesis
    by (simp add: Category_family_ids_def demo_family_ids set_add_def)
qed

theorem Category_families_distinct_witness:
  "Category_family_ids demo_env demo_heap (wrapper_of Category_cls 3) = Inr (demo_heap, [VInt 4]) \<and>
   py_getattr demo_heap (VRef (GetElement demo_env (VInt 4))) ''Id'' = Inr (VInt 4) \<and>
   Category_families demo_env demo_heap (wrapper_of Category_cls 3) = Inr (demo_heap, [4]) \<and>
   distinct (map (\<lambda>r. py_getattr demo_heap (VRef r) ''Id'') [4])"
proof -
  have g: "GetElement demo_env (VInt 4) = 4" by (simp add: demo_env_def)
  have i: "py_getattr demo_heap (VRef 4) ''Id'' = Inr (VInt 4)"
    by (simp add: py_getattr_def demo_objects)
  from Category_families_distinct [OF demo_category_family_ids] g i demo_category_family_ids
  show ?thesis by simp
qed


end
